theory Spec2Isabelle
  imports Complex_Main
begin

section \<open>Python values shared by all modules\<close>

text \<open>
  Samples are IEEE floats or 8-bit integers in the source; they are idealised here as
  reals. Arrays are nested lists: an image is height by width by channel, a grid is
  height by width.

  An exception is a value. \<open>Error\<close> stands for every exception class raised by a
  library the repository calls (cv2.error, PIL.UnidentifiedImageError, a TensorFlow or
  PyTorch runtime error), with its message. The detail of an \<open>HTTPException\<close> is either
  a literal or \<open>str(e)\<close> of the exception that was caught, kept symbolic.
\<close>

type_synonym grid = "real list list"
type_synonym image = "real list list list"

datatype exn =
    ValueError string
  | AttributeError string
  | KeyError int
  | IndexError string
  | UnboundLocalError string
  | Error string
  | HTTPException nat detail
and detail = Literal string | Str exn

definition and_then :: "exn + 'a \<Rightarrow> ('a \<Rightarrow> exn + 'b) \<Rightarrow> exn + 'b" where
  "and_then m f = (case m of Inl e \<Rightarrow> Inl e | Inr v \<Rightarrow> f v)"

definition try_except :: "exn + 'a \<Rightarrow> (exn \<Rightarrow> exn + 'a) \<Rightarrow> exn + 'a" where
  "try_except body handler = (case body of Inl e \<Rightarrow> handler e | Inr v \<Rightarrow> Inr v)"

definition raises :: "exn + 'a \<Rightarrow> bool" where
  "raises m = (case m of Inl e \<Rightarrow> True | Inr v \<Rightarrow> False)"

section \<open>ImagePreprocessing.py\<close>

text \<open>
  OpenCV is a collaborator: each call the preprocessor makes is a field of the record
  below, named after the call and its constant arguments, and may raise.
  \<open>imdecode\<close> returns \<open>None\<close> for a buffer it cannot decode, and \<open>cvtColor\<close> raises
  when it is handed that \<open>None\<close>, which is why \<open>cvtColor_BGR2RGB\<close> takes an option.
\<close>

record cv2 =
  cvtColor_RGB2GRAY :: "image \<Rightarrow> exn + grid"
  getStructuringElement_RECT :: "nat \<times> nat \<Rightarrow> exn + grid"
  morphologyEx_BLACKHAT :: "grid \<Rightarrow> grid \<Rightarrow> exn + grid"
  threshold_BINARY :: "grid \<Rightarrow> real \<Rightarrow> real \<Rightarrow> exn + (real \<times> grid)"
  inpaint_TELEA :: "image \<Rightarrow> grid \<Rightarrow> real \<Rightarrow> exn + image"
  GaussianBlur :: "image \<Rightarrow> nat \<times> nat \<Rightarrow> real \<Rightarrow> exn + image"
  addWeighted :: "image \<Rightarrow> real \<Rightarrow> image \<Rightarrow> real \<Rightarrow> real \<Rightarrow> exn + image"
  resize_NEAREST :: "image \<Rightarrow> nat \<times> nat \<Rightarrow> exn + image"
  frombuffer_uint8 :: "nat list \<Rightarrow> exn + nat list"
  imdecode_COLOR :: "nat list \<Rightarrow> exn + image option"
  cvtColor_BGR2RGB :: "image option \<Rightarrow> exn + image"

text \<open>The body of the \<open>try\<close> block of \<open>hair_remove\<close>, lines 21 to 27.\<close>

definition hair_remove_try :: "cv2 \<Rightarrow> image \<Rightarrow> exn + image" where
  "hair_remove_try cv img =
     and_then (cvtColor_RGB2GRAY cv img) (\<lambda>gray_scale.
     and_then (getStructuringElement_RECT cv (17, 17)) (\<lambda>kernel.
     and_then (morphologyEx_BLACKHAT cv gray_scale kernel) (\<lambda>blackhat.
     and_then (threshold_BINARY cv blackhat 10 255) (\<lambda>(uu, threshold).
     and_then (inpaint_TELEA cv img threshold 1) (\<lambda>final_image.
     Inr final_image)))))"

text \<open>\<open>hair_remove\<close>: the handler logs and returns the image it was given.\<close>

definition hair_remove :: "cv2 \<Rightarrow> image \<Rightarrow> exn + image" where
  "hair_remove cv img = try_except (hair_remove_try cv img) (\<lambda>e. Inr img)"

definition sharpen_image_try :: "cv2 \<Rightarrow> image \<Rightarrow> exn + image" where
  "sharpen_image_try cv img =
     and_then (GaussianBlur cv img (0, 0) 2.0) (\<lambda>gaussian.
     addWeighted cv img 1.5 gaussian (- 0.5) 0)"

definition sharpen_image :: "cv2 \<Rightarrow> image \<Rightarrow> exn + image" where
  "sharpen_image cv img = try_except (sharpen_image_try cv img) (\<lambda>e. Inr img)"

text \<open>
  \<open>preprocess\<close>, lines 58 to 76: hair removal, sharpening, nearest-neighbour resize to
  \<open>self.target_size\<close>, all inside one \<open>try\<close> whose handler returns \<open>None\<close>.
\<close>

definition preprocess_try :: "cv2 \<Rightarrow> nat \<times> nat \<Rightarrow> image \<Rightarrow> exn + image option" where
  "preprocess_try cv target_size img =
     and_then (hair_remove cv img) (\<lambda>img1.
     and_then (sharpen_image cv img1) (\<lambda>img2.
     and_then (resize_NEAREST cv img2 target_size) (\<lambda>img3.
     Inr (Some img3))))"

definition preprocess :: "cv2 \<Rightarrow> nat \<times> nat \<Rightarrow> image \<Rightarrow> exn + image option" where
  "preprocess cv target_size img =
     try_except (preprocess_try cv target_size img) (\<lambda>e. Inr None)"

text \<open>\<open>process_bytes\<close>, lines 47 to 56.\<close>

definition process_bytes_try :: "cv2 \<Rightarrow> nat \<times> nat \<Rightarrow> nat list \<Rightarrow> exn + image option" where
  "process_bytes_try cv target_size image_bytes =
     and_then (frombuffer_uint8 cv image_bytes) (\<lambda>nparr.
     and_then (imdecode_COLOR cv nparr) (\<lambda>decoded.
     and_then (cvtColor_BGR2RGB cv decoded) (\<lambda>img.
     preprocess cv target_size img)))"

definition process_bytes :: "cv2 \<Rightarrow> nat \<times> nat \<Rightarrow> nat list \<Rightarrow> exn + image option" where
  "process_bytes cv target_size image_bytes =
     try_except (process_bytes_try cv target_size image_bytes) (\<lambda>e. Inr None)"

text \<open>
  The pipeline the spec describes for a failed hair removal: sharpening and resize
  applied to the input itself.
\<close>

definition sharpen_then_resize :: "cv2 \<Rightarrow> nat \<times> nat \<Rightarrow> image \<Rightarrow> exn + image option" where
  "sharpen_then_resize cv target_size img =
     try_except
       (and_then (sharpen_image cv img) (\<lambda>img2.
        and_then (resize_NEAREST cv img2 target_size) (\<lambda>img3. Inr (Some img3))))
       (\<lambda>e. Inr None)"

text \<open>An OpenCV on which every call of hair removal and sharpening raises.\<close>

definition cv2_failing :: cv2 where
  "cv2_failing = \<lparr>
     cvtColor_RGB2GRAY = (\<lambda>i. Inl (Error ''cvtColor'')),
     getStructuringElement_RECT = (\<lambda>k. Inl (Error ''getStructuringElement'')),
     morphologyEx_BLACKHAT = (\<lambda>g k. Inl (Error ''morphologyEx'')),
     threshold_BINARY = (\<lambda>g t m. Inl (Error ''threshold'')),
     inpaint_TELEA = (\<lambda>i m r. Inl (Error ''inpaint'')),
     GaussianBlur = (\<lambda>i k s. Inl (Error ''GaussianBlur'')),
     addWeighted = (\<lambda>a x b y z. Inl (Error ''addWeighted'')),
     resize_NEAREST = (\<lambda>i s. Inr i),
     frombuffer_uint8 = (\<lambda>b. Inr b),
     imdecode_COLOR = (\<lambda>b. Inr None),
     cvtColor_BGR2RGB = (\<lambda>d. case d of None \<Rightarrow> Inl (Error ''cvtColor'') | Some i \<Rightarrow> Inr i)
   \<rparr>"

section \<open>grad_cam.py\<close>

subsection \<open>Array helpers\<close>

type_synonym tensor4 = "real list list list list"

definition nth_or_raise :: "'a list \<Rightarrow> nat \<Rightarrow> exn + 'a" where
  "nth_or_raise xs i = (if i < length xs then Inr (xs ! i) else Inl (IndexError ''index out of range''))"

definition shape2 :: "'a list list \<Rightarrow> nat \<times> nat" where
  "shape2 a = (length a, case a of [] \<Rightarrow> 0 | r # rs \<Rightarrow> length r)"

definition zeros :: "nat \<times> nat \<Rightarrow> grid" where
  "zeros s = replicate (fst s) (replicate (snd s) 0)"

definition relu :: "real \<Rightarrow> real" where
  "relu v = max v 0"

definition clip01 :: "real \<Rightarrow> real" where
  "clip01 v = min (max v 0) 1"

definition eps :: real where
  "eps = 1 / 100000000"

text \<open>
  \<open>(a - a.min()) / (a.max() - a.min() + 1e-8)\<close> on the flattened samples of an array.
  NumPy raises ValueError when a reduction without identity meets an array of size zero.
\<close>

definition amin :: "real \<Rightarrow> real list \<Rightarrow> real" where
  "amin x xs = fold min xs x"

definition amax :: "real \<Rightarrow> real list \<Rightarrow> real" where
  "amax x xs = fold max xs x"

definition minmax_scaler :: "real list \<Rightarrow> exn + (real \<Rightarrow> real)" where
  "minmax_scaler flat =
     (case flat of
        [] \<Rightarrow> Inl (ValueError ''zero-size array to reduction operation minimum which has no identity'')
      | x # xs \<Rightarrow> Inr (\<lambda>v. (v - amin x xs) / (amax x xs - amin x xs + eps)))"

definition normalize_grid :: "grid \<Rightarrow> exn + grid" where
  "normalize_grid h = and_then (minmax_scaler (concat h)) (\<lambda>f. Inr (map (map f) h))"

definition normalize_image :: "image \<Rightarrow> exn + image" where
  "normalize_image a =
     and_then (minmax_scaler (concat (concat a))) (\<lambda>f. Inr (map (map (map f)) a))"

definition normalize_batch :: "image list \<Rightarrow> exn + image list" where
  "normalize_batch a =
     and_then (minmax_scaler (concat (concat (concat a)))) (\<lambda>f. Inr (map (map (map (map f))) a))"

subsection \<open>\<open>pytorch_grad_cam\<close>, lines 7 to 74\<close>

text \<open>
  The PyTorch model is a collaborator. \<open>target_named_modules\<close> is
  \<open>named_modules()\<close> of \<open>model.model\<close> when that attribute exists and of \<open>model\<close>
  otherwise (lines 26 to 29), each module being the function it computes (the modules
  that return a feature tensor of four axes; the others are not modelled);
  \<open>forward\<close> is \<open>model(input_tensor)\<close>; \<open>backward_input x g\<close> is the value autograd
  leaves in \<open>input_tensor.grad\<close> after \<open>output.backward(gradient=g)\<close>, which has the
  shape of the input. Tensors are batch by channel by height by width.
\<close>

record torch_model =
  target_named_modules :: "(string \<times> (tensor4 \<Rightarrow> exn + tensor4)) list"
  forward :: "tensor4 \<Rightarrow> exn + real list list"
  backward_input :: "tensor4 \<Rightarrow> real list list \<Rightarrow> exn + tensor4"

text \<open>\<open>one_hot = torch.zeros_like(output); one_hot[0][target_class] = 1\<close>. Both call
  sites pass an argmax, so the class is a natural number.\<close>

definition one_hot_at :: "real list list \<Rightarrow> nat \<Rightarrow> exn + real list list" where
  "one_hot_at output target_class =
     (case output of
        [] \<Rightarrow> Inl (IndexError ''index 0 is out of bounds for dimension 0 with size 0'')
      | row # rest \<Rightarrow>
          if target_class < length row
          then Inr ((replicate (length row) 0)[target_class := 1]
                    # map (\<lambda>r. replicate (length r) 0) rest)
          else Inl (IndexError ''index is out of bounds for dimension 1''))"

text \<open>\<open>torch.mean(gradients, dim=(2, 3))\<close> for one channel. A channel without pixels
  (where torch gives NaN) is no input of a convolutional network.\<close>

definition spatial_mean :: "grid \<Rightarrow> real" where
  "spatial_mean g = sum_list (concat g) / real (length (concat g))"

definition add_scaled :: "real \<Rightarrow> grid \<Rightarrow> grid \<Rightarrow> grid" where
  "add_scaled w f h = map2 (map2 (\<lambda>hv fv. hv + w * fv)) h f"

text \<open>The loop of lines 60 to 62: \<open>for i, w in enumerate(weights[0]): heatmap += w * features[0, i]\<close>.\<close>

fun accumulate :: "real list \<Rightarrow> grid list \<Rightarrow> nat \<Rightarrow> grid \<Rightarrow> exn + grid" where
  "accumulate [] feats i heatmap = Inr heatmap"
| "accumulate (w # ws) feats i heatmap =
     (if i < length feats
      then accumulate ws feats (Suc i) (add_scaled w (feats ! i) heatmap)
      else Inl (IndexError ''index is out of bounds for dimension 1''))"

text \<open>Lines 43 to 65: from the forward pass to the rectified, not yet normalised heatmap.\<close>

definition pytorch_raw_heatmap ::
  "torch_model \<Rightarrow> (tensor4 \<Rightarrow> exn + tensor4) \<Rightarrow> tensor4 \<Rightarrow> nat \<Rightarrow> exn + grid" where
  "pytorch_raw_heatmap model target_layer input_tensor target_class =
     and_then (forward model input_tensor) (\<lambda>output.
     and_then (one_hot_at output target_class) (\<lambda>one_hot.
     and_then (backward_input model input_tensor one_hot) (\<lambda>gradients.
     and_then (target_layer input_tensor) (\<lambda>features.
     let weights = map (map spatial_mean) gradients in
     and_then (nth_or_raise features 0) (\<lambda>features0.
     and_then (nth_or_raise weights 0) (\<lambda>weights0.
     and_then (accumulate weights0 features0 0
                 (zeros (case features0 of [] \<Rightarrow> (0, 0) | f # fs \<Rightarrow> shape2 f))) (\<lambda>heatmap.
     Inr (map (map relu) heatmap))))))))"

definition chw_to_hwc :: "image \<Rightarrow> image" where
  "chw_to_hwc t = map transpose (transpose t)"

definition pytorch_grad_cam ::
  "torch_model \<Rightarrow> tensor4 \<Rightarrow> nat \<Rightarrow> string \<Rightarrow> exn + (image \<times> grid)" where
  "pytorch_grad_cam model input_tensor target_class layer_name =
     (case find (\<lambda>(n, module). n = layer_name) (target_named_modules model) of
        None \<Rightarrow> Inl (ValueError (''Layer '' @ layer_name @ '' not found in model''))
      | Some (n, target_layer) \<Rightarrow>
          and_then (pytorch_raw_heatmap model target_layer input_tensor target_class) (\<lambda>heatmap.
          and_then (normalize_grid heatmap) (\<lambda>heatmap_n.
          and_then (nth_or_raise input_tensor 0) (\<lambda>original_image.
          and_then (normalize_image (chw_to_hwc original_image)) (\<lambda>original_n.
          Inr (original_n, heatmap_n))))))"

subsection \<open>\<open>tensorflow_grad_cam\<close>, lines 76 to 140\<close>

text \<open>
  TensorFlow divides floats without raising: \<open>0 / 0\<close> is NaN and \<open>x / 0\<close> is an infinity.
  A sample of the TensorFlow heatmap is therefore a real or one of these.
\<close>

datatype sample = Fin real | PosInf | NegInf | NaN

definition fdiv :: "real \<Rightarrow> real \<Rightarrow> sample" where
  "fdiv x y = (if y \<noteq> 0 then Fin (x / y) else if x = 0 then NaN else if 0 < x then PosInf else NegInf)"

text \<open>
  The Keras model is a collaborator: its layers in order, each with its name and whether
  it is an instance of \<open>Conv2D\<close>; \<open>grad_model l x\<close> is the pair of \<open>l\<close>'s output and the
  model's output on \<open>x\<close> (lines 116 to 124); \<open>tape_gradient l x k\<close> is
  \<open>tape.gradient(predictions[:, k], conv_output)\<close>, of the shape of \<open>conv_output\<close>;
  \<open>model_predict\<close> is \<open>model.predict\<close>. Tensors are batch by height by width by channel.
\<close>

record keras_layer =
  name :: string
  is_Conv2D :: bool

record keras_model =
  layers :: "keras_layer list"
  grad_model :: "keras_layer \<Rightarrow> image list \<Rightarrow> exn + (image list \<times> real list list)"
  tape_gradient :: "keras_layer \<Rightarrow> image list \<Rightarrow> nat \<Rightarrow> exn + image list"
  model_predict :: "image list \<Rightarrow> exn + real list list"

datatype tf_tensor = Rank3 image | Rank4 "image list"

text \<open>Lines 92 to 99.\<close>

definition fix_input_shape :: "tf_tensor \<Rightarrow> image list" where
  "fix_input_shape t =
     (case t of
        Rank4 b \<Rightarrow> b
      | Rank3 a \<Rightarrow> [if snd (shape2 a) = 3 then map transpose a else a])"

text \<open>\<open>model.get_layer(name)\<close>: the first layer of that name, or ValueError.\<close>

definition get_layer :: "keras_model \<Rightarrow> string \<Rightarrow> exn + keras_layer" where
  "get_layer model nm =
     (case find (\<lambda>l. name l = nm) (layers model) of
        None \<Rightarrow> Inl (ValueError (''No such layer: '' @ nm))
      | Some l \<Rightarrow> Inr l)"

text \<open>
  Lines 101 to 112. When \<open>get_layer\<close> raised, \<open>target_layer\<close> was never assigned; the loop
  assigns it at the first \<open>Conv2D\<close> from the end, and without one the test
  \<open>if not target_layer\<close> reads an unbound local.
\<close>

definition resolve_target_layer :: "keras_model \<Rightarrow> string \<Rightarrow> exn + keras_layer" where
  "resolve_target_layer model layer_name =
     (case get_layer model layer_name of
        Inr l \<Rightarrow> Inr l
      | Inl (ValueError m) \<Rightarrow>
          (case find is_Conv2D (rev (layers model)) of
             Some l \<Rightarrow> Inr l
           | None \<Rightarrow> Inl (UnboundLocalError ''target_layer''))
      | Inl e \<Rightarrow> Inl e)"

text \<open>\<open>tf.reduce_mean(grads, axis=(1, 2))\<close> for one batch element.\<close>

definition channels :: "image \<Rightarrow> nat" where
  "channels a = (case concat a of [] \<Rightarrow> 0 | px # pxs \<Rightarrow> length px)"

definition reduce_mean_12 :: "image \<Rightarrow> real list" where
  "reduce_mean_12 g =
     map (\<lambda>c. sum_list (map (\<lambda>px. px ! c) (concat g)) / real (length (concat g)))
       [0..<channels g]"

text \<open>\<open>tf.reduce_sum(weights[:, newaxis, newaxis, :] * conv_output, axis=-1)\<close> for one
  batch element.\<close>

definition weighted_sum :: "real list \<Rightarrow> image \<Rightarrow> grid" where
  "weighted_sum w a = map (map (\<lambda>px. sum_list (map2 (*) w px))) a"

definition reduce_max :: "real list \<Rightarrow> real" where
  "reduce_max flat = (case flat of [] \<Rightarrow> 0 | x # xs \<Rightarrow> amax x xs)"

text \<open>Line 133: \<open>tf.maximum(heatmap, 0) / tf.math.reduce_max(heatmap)\<close>.\<close>

definition tf_normalize :: "grid list \<Rightarrow> sample list list list" where
  "tf_normalize heatmap =
     map (map (map (\<lambda>v. fdiv (max v 0) (reduce_max (concat (concat heatmap)))))) heatmap"

text \<open>Lines 127 to 133 on one resolved layer.\<close>

definition tf_raw_heatmap :: "image list \<Rightarrow> image list \<Rightarrow> grid list" where
  "tf_raw_heatmap grads conv_output =
     map2 (\<lambda>g a. weighted_sum (reduce_mean_12 g) a) grads conv_output"

definition grad_cam_on_layer ::
  "keras_model \<Rightarrow> keras_layer \<Rightarrow> image list \<Rightarrow> nat
     \<Rightarrow> exn + (image list \<times> sample list list list)" where
  "grad_cam_on_layer model target_layer input_tensor target_class =
     and_then (grad_model model target_layer input_tensor) (\<lambda>(conv_output, predictions).
     and_then (tape_gradient model target_layer input_tensor target_class) (\<lambda>grads.
     and_then (normalize_batch input_tensor) (\<lambda>original_image.
     Inr (original_image, tf_normalize (tf_raw_heatmap grads conv_output)))))"

definition tensorflow_grad_cam ::
  "keras_model \<Rightarrow> tf_tensor \<Rightarrow> nat \<Rightarrow> string \<Rightarrow> exn + (image list \<times> sample list list list)" where
  "tensorflow_grad_cam model input_tensor target_class layer_name =
     and_then (resolve_target_layer model layer_name) (\<lambda>target_layer.
     grad_cam_on_layer model target_layer (fix_input_shape input_tensor) target_class)"

subsection \<open>\<open>apply_grad_cam\<close>, lines 142 to 171\<close>

text \<open>
  \<open>np.uint8\<close> of a float truncates towards zero and keeps the low eight bits; of a value
  that is not finite it is platform-defined, 0 on the usual builds.
\<close>

definition times255 :: "sample \<Rightarrow> sample" where
  "times255 s = (case s of Fin x \<Rightarrow> Fin (255 * x) | other \<Rightarrow> other)"

definition np_uint8 :: "sample \<Rightarrow> real" where
  "np_uint8 s =
     (case s of
        Fin x \<Rightarrow> of_int ((if 0 \<le> x then \<lfloor>x\<rfloor> else \<lceil>x\<rceil>) mod 256)
      | other \<Rightarrow> 0)"

text \<open>
  \<open>heatmap_colored = np.zeros_like(original_image); heatmap_colored[:, :, 0] = heatmap[:, :, 0]\<close>:
  index 0 of the channel axis must exist, and the shapes must agree.
\<close>

definition red_overlay :: "image \<Rightarrow> grid \<Rightarrow> exn + image" where
  "red_overlay original_image heatmap =
     (if [] \<in> set (concat original_image)
      then Inl (IndexError ''index 0 is out of bounds for axis 2 with size 0'')
      else if map length original_image \<noteq> map length heatmap
      then Inl (ValueError ''could not broadcast input array'')
      else Inr (map2 (map2 (\<lambda>px h. h # replicate (length px - 1) 0)) original_image heatmap))"

definition apply_grad_cam ::
  "(sample list list \<Rightarrow> nat \<times> nat \<Rightarrow> exn + sample list list)
     \<Rightarrow> image \<Rightarrow> sample list list \<Rightarrow> real \<Rightarrow> exn + image" where
  "apply_grad_cam cv2_resize original_image heatmap alpha =
     and_then (if shape2 original_image \<noteq> shape2 heatmap
               then cv2_resize heatmap (snd (shape2 original_image), fst (shape2 original_image))
               else Inr heatmap) (\<lambda>heatmap1.
     and_then (red_overlay original_image (map (map (\<lambda>s. np_uint8 (times255 s))) heatmap1))
       (\<lambda>heatmap_colored.
     Inr (map2 (map2 (map2 (\<lambda>v c. clip01 (v + alpha * c)))) original_image heatmap_colored)))"

section \<open>MelanomaClassifier.py\<close>

text \<open>
  \<open>torch.argmax\<close> and \<open>tf.argmax\<close> return the index of the first maximal value.
\<close>

fun argmax_from :: "nat \<Rightarrow> real \<Rightarrow> nat \<Rightarrow> real list \<Rightarrow> nat" where
  "argmax_from best bv i [] = best"
| "argmax_from best bv i (x # xs) =
     (if bv < x then argmax_from i x (Suc i) xs else argmax_from best bv (Suc i) xs)"

definition argmax :: "real list \<Rightarrow> exn + nat" where
  "argmax xs =
     (case xs of
        [] \<Rightarrow> Inl (Error ''argmax of an empty tensor'')
      | x # rest \<Rightarrow> Inr (argmax_from 0 x 1 rest))"

text \<open>
  \<open>MobileNetPredictor\<close>: \<open>prepare_image\<close> (PIL conversion and the torchvision transform)
  and \<open>softmax_model t\<close>, which is \<open>torch.softmax(self.model(t), dim=1)\<close>, are
  collaborators; \<open>classifier\<close> is \<open>self.model\<close> as the attribution engine sees it.
  The class defines the attributes \<open>config\<close>, \<open>device\<close>, \<open>model\<close>, \<open>transform\<close>,
  \<open>_load_model\<close>, \<open>_get_transform\<close>, \<open>prepare_image\<close>, \<open>predict\<close> and
  \<open>predict_with_gradcam\<close>, and no other.
\<close>

record mobilenet_predictor =
  prepare_image :: "image \<Rightarrow> exn + tensor4"
  softmax_model :: "tensor4 \<Rightarrow> exn + real list list"
  classifier :: torch_model

record prediction =
  class_index :: nat
  probabilities :: "real list"

text \<open>\<open>predict\<close>, lines 95 to 113.\<close>

definition predict :: "mobilenet_predictor \<Rightarrow> image \<Rightarrow> exn + prediction" where
  "predict mn image_array =
     and_then (prepare_image mn image_array) (\<lambda>image_tensor.
     and_then (softmax_model mn image_tensor) (\<lambda>probs.
     and_then (argmax (concat probs)) (\<lambda>k.
     and_then (nth_or_raise probs 0) (\<lambda>row.
     Inr \<lparr>class_index = k, probabilities = row\<rparr>))))"

record gradcam_prediction =
  gc_class_index :: nat
  gc_probabilities :: "real list"
  gradcam_visualization :: image

text \<open>\<open>MobileNetPredictor.predict_with_gradcam\<close>, lines 115 to 149; \<open>cv2_resize\<close> is the
  \<open>cv2.resize\<close> that \<open>apply_grad_cam\<close> imports.\<close>

definition mobilenet_predict_with_gradcam ::
  "mobilenet_predictor \<Rightarrow> (sample list list \<Rightarrow> nat \<times> nat \<Rightarrow> exn + sample list list)
     \<Rightarrow> image \<Rightarrow> exn + gradcam_prediction" where
  "mobilenet_predict_with_gradcam mn cv2_resize image_array =
     and_then (prepare_image mn image_array) (\<lambda>input_tensor.
     and_then (softmax_model mn input_tensor) (\<lambda>probs.
     and_then (argmax (concat probs)) (\<lambda>predicted_class.
     and_then (pytorch_grad_cam (classifier mn) input_tensor predicted_class ''features'')
       (\<lambda>(original_image, heatmap).
     and_then (apply_grad_cam cv2_resize original_image (map (map Fin) heatmap) 0.4)
       (\<lambda>visualization.
     and_then (nth_or_raise probs 0) (\<lambda>row.
     Inr \<lparr>gc_class_index = predicted_class, gc_probabilities = row,
          gradcam_visualization = visualization\<rparr>))))))"

section \<open>SkinLesionClassifier.py\<close>

text \<open>\<open>predict_with_gradcam\<close>, lines 72 to 110. The heatmap comes from
  \<open>tensorflow_grad_cam\<close> on \<open>self.model\<close>, for the class this call itself predicted.\<close>

definition nasnet_predict_with_gradcam ::
  "keras_model \<Rightarrow> (sample list list \<Rightarrow> nat \<times> nat \<Rightarrow> exn + sample list list)
     \<Rightarrow> tf_tensor \<Rightarrow> exn + gradcam_prediction" where
  "nasnet_predict_with_gradcam model cv2_resize img =
     and_then (model_predict model (case img of Rank3 a \<Rightarrow> [a] | Rank4 b \<Rightarrow> b)) (\<lambda>predictions.
     and_then (nth_or_raise predictions 0) (\<lambda>row.
     and_then (argmax row) (\<lambda>predicted_class.
     and_then (tensorflow_grad_cam model img predicted_class ''conv2d_93'')
       (\<lambda>(original_image, heatmap).
     and_then (nth_or_raise original_image 0) (\<lambda>original0.
     and_then (nth_or_raise heatmap 0) (\<lambda>heatmap0.
     and_then (apply_grad_cam cv2_resize original0 heatmap0 0.4) (\<lambda>visualization.
     Inr \<lparr>gc_class_index = predicted_class, gc_probabilities = row,
          gradcam_visualization = visualization\<rparr>)))))))"

section \<open>app.py\<close>

text \<open>
  The adapter methods \<open>process_image\<close> calls are logged, so that a result comes with
  the calls that were made to produce it.
\<close>

datatype call = MobileNet_predict | NASNet_predict_with_gradcam

type_synonym 'a traced = "(exn + 'a) \<times> call list"

definition quiet :: "exn + 'a \<Rightarrow> 'a traced" where
  "quiet r = (r, [])"

definition logged :: "call \<Rightarrow> exn + 'a \<Rightarrow> 'a traced" where
  "logged c r = (r, [c])"

definition then_t :: "'a traced \<Rightarrow> ('a \<Rightarrow> 'b traced) \<Rightarrow> 'b traced" where
  "then_t m f =
     (case m of
        (Inl e, t) \<Rightarrow> (Inl e, t)
      | (Inr v, t) \<Rightarrow> (case f v of (r, t') \<Rightarrow> (r, t @ t')))"

text \<open>
  \<open>ModelService\<close>: the preprocessor's OpenCV, the two classifiers, and the collaborators
  at the boundary: \<open>Image_open_RGB\<close> is \<open>np.array(Image.open(BytesIO(b)).convert('RGB'))\<close>,
  \<open>encode_jpeg_base64 v\<close> is the JPEG of \<open>(v * 255).astype(np.uint8)\<close> in base64.
\<close>

record model_service =
  Image_open_RGB :: "nat list \<Rightarrow> exn + image"
  opencv :: cv2
  mobilenet :: mobilenet_predictor
  nasnet :: keras_model
  cv2_resize_heatmap :: "sample list list \<Rightarrow> nat \<times> nat \<Rightarrow> exn + sample list list"
  encode_jpeg_base64 :: "image \<Rightarrow> exn + string"

definition nasnet_classes :: "(nat \<times> string) list" where
  "nasnet_classes =
     [(0, ''Actinic Keratosis''), (1, ''Basal Cell Carcinoma''), (2, ''Benign Keratosis''),
      (3, ''Dermatofibroma''), (4, ''Melanoma''), (5, ''Melanocytic Nevus''),
      (6, ''Vascular Lesion'')]"

definition dict_get :: "(nat \<times> 'v) list \<Rightarrow> nat \<Rightarrow> exn + 'v" where
  "dict_get d k = (case map_of d k of None \<Rightarrow> Inl (KeyError (int k)) | Some v \<Rightarrow> Inr v)"

record response =
  class_name :: string
  confidence :: real
  model_used :: string
  visualization :: string

text \<open>
  Lines 82 to 94, the branch on Stage 1's class. Line 94 reads the attribute
  \<open>gradcam_visualization\<close> of the \<open>MobileNetPredictor\<close>, which the class does not define.
\<close>

definition final_verdict ::
  "model_service \<Rightarrow> image \<Rightarrow> prediction \<Rightarrow> real \<Rightarrow> (string \<times> real \<times> string \<times> image) traced" where
  "final_verdict svc processed_image mobilenet_result mobilenet_confidence =
     (if class_index mobilenet_result = 0
      then
        then_t (logged NASNet_predict_with_gradcam
                  (nasnet_predict_with_gradcam (nasnet svc) (cv2_resize_heatmap svc)
                     (Rank3 (map (map (map (\<lambda>v. v / 255))) processed_image)))) (\<lambda>nasnet_result.
        then_t (quiet (dict_get nasnet_classes (gc_class_index nasnet_result))) (\<lambda>final_class.
        then_t (quiet (dict_get (enumerate 0 (gc_probabilities nasnet_result))
                         (gc_class_index nasnet_result))) (\<lambda>final_confidence.
        quiet (Inr (final_class, final_confidence, ''NASNetMobile'',
                    gradcam_visualization nasnet_result)))))
      else
        quiet (Inl (AttributeError
          (''MobileNetPredictor object has no attribute gradcam_visualization''))))"

text \<open>The body of the \<open>try\<close> of \<open>process_image\<close>, lines 60 to 108.\<close>

definition process_image_try :: "model_service \<Rightarrow> nat list \<Rightarrow> response traced" where
  "process_image_try svc image_bytes =
     then_t (quiet (Image_open_RGB svc image_bytes)) (\<lambda>image_array.
     then_t (quiet (preprocess (opencv svc) (224, 224) image_array)) (\<lambda>processed.
     case processed of
       None \<Rightarrow> quiet (Inl (HTTPException 400 (Literal ''Image preprocessing failed'')))
     | Some processed_image \<Rightarrow>
     then_t (logged MobileNet_predict (predict (mobilenet svc) processed_image))
       (\<lambda>mobilenet_result.
     then_t (quiet (nth_or_raise (probabilities mobilenet_result) (class_index mobilenet_result)))
       (\<lambda>mobilenet_confidence.
     then_t (final_verdict svc processed_image mobilenet_result mobilenet_confidence)
       (\<lambda>(final_class, final_confidence, used, vis).
     then_t (quiet (encode_jpeg_base64 svc vis)) (\<lambda>visualization_str.
     quiet (Inr \<lparr>class_name = final_class, confidence = final_confidence,
                 model_used = used, visualization = visualization_str\<rparr>)))))))"

text \<open>\<open>process_image\<close>: the handler of line 110 catches every \<open>Exception\<close>, the
  \<open>HTTPException\<close> of line 73 included, and raises a new one with status 500.\<close>

definition process_image :: "model_service \<Rightarrow> nat list \<Rightarrow> response traced" where
  "process_image svc image_bytes =
     (case process_image_try svc image_bytes of
        (Inl e, t) \<Rightarrow> (Inl (HTTPException 500 (Str e)), t)
      | (Inr r, t) \<Rightarrow> (Inr r, t))"

text \<open>The endpoint \<open>predict\<close>, lines 121 to 131; an upload may carry no content type.\<close>

definition starts_with :: "string \<Rightarrow> string \<Rightarrow> bool" where
  "starts_with s p = (take (length p) s = p)"

definition predict_endpoint :: "model_service \<Rightarrow> string option \<Rightarrow> nat list \<Rightarrow> response traced" where
  "predict_endpoint svc content_type contents =
     (case content_type of
        None \<Rightarrow> quiet (Inl (AttributeError ''NoneType object has no attribute startswith''))
      | Some ct \<Rightarrow>
          if \<not> starts_with ct ''image/''
          then quiet (Inl (HTTPException 400 (Literal ''File must be an image'')))
          else process_image svc contents)"

text \<open>The status the caller sees: that of an \<open>HTTPException\<close>, and 500 for any other
  exception that leaves the endpoint.\<close>

definition status_seen :: "response traced \<Rightarrow> nat" where
  "status_seen r =
     (case fst r of
        Inr v \<Rightarrow> 200
      | Inl (HTTPException code d) \<Rightarrow> code
      | Inl e \<Rightarrow> 500)"

subsection \<open>The attribution as the specification words it\<close>

text \<open>
  Section 4.3, steps 3 and 4: the weight of a channel is the spatial mean of the gradient
  of the class output with respect to that channel of the captured activation, and the
  heatmap is the sum over the channels of the weight times the channel. Gradient and
  activation are given channel by channel; \<open>hwc_to_chw\<close> brings a channel-last array
  into that form.
\<close>

definition spec_weights :: "grid list \<Rightarrow> real list" where
  "spec_weights gradient_grid = map spatial_mean gradient_grid"

definition spec_heatmap :: "grid list \<Rightarrow> grid list \<Rightarrow> nat \<Rightarrow> nat \<Rightarrow> real" where
  "spec_heatmap gradient_grid activation_grid i j =
     (\<Sum>c<length activation_grid. spec_weights gradient_grid ! c * activation_grid ! c ! i ! j)"

definition hwc_to_chw :: "image \<Rightarrow> grid list" where
  "hwc_to_chw a = map (\<lambda>c. map (map (\<lambda>px. px ! c)) a) [0..<channels a]"

section \<open>Concrete collaborators\<close>

text \<open>
  A small PyTorch model, linear so that its gradients are known exactly. The input has
  one channel; the layer \<open>features\<close> produces two channels, the input and the input
  with every row reversed; the head averages each channel and returns
  \<open>mean(F0) + 3 * mean(F1)\<close> for class 0 and \<open>0\<close> for class 1.
  \<open>backward_input\<close> is the gradient of that output with respect to the input:
  \<open>4 / N\<close> at each of the \<open>N\<close> pixels, times the upstream gradient of class 0.
\<close>

definition tiny_features :: "tensor4 \<Rightarrow> exn + tensor4" where
  "tiny_features x = Inr (map (\<lambda>s. [s ! 0, map rev (s ! 0)]) x)"

definition tiny_head :: "grid list \<Rightarrow> real list" where
  "tiny_head a = [spatial_mean (a ! 0) + 3 * spatial_mean (a ! 1), 0]"

definition tiny_torch :: torch_model where
  "tiny_torch = \<lparr>
     target_named_modules = [(''features'', tiny_features)],
     forward = (\<lambda>x. Inr (map (\<lambda>s. tiny_head [s ! 0, map rev (s ! 0)]) x)),
     backward_input = (\<lambda>x g. Inr (map2 (\<lambda>s gr.
        [map (map (\<lambda>v. gr ! 0 * 4 / real (length (concat (s ! 0))))) (s ! 0)]) x g))
   \<rparr>"

text \<open>The gradient of the class-0 output of \<open>tiny_head\<close> with respect to a two-channel
  activation of one row and two columns.\<close>

definition tiny_activation_gradient :: "grid list" where
  "tiny_activation_gradient = [[[1 / 2, 1 / 2]], [[3 / 2, 3 / 2]]]"

text \<open>A Keras model with one convolution, whose name is not \<open>conv2d_93\<close>; the layer's
  output is the input itself, every gradient sample is 1, and the model predicts \<open>p\<close>.\<close>

definition keras_demo :: "real list \<Rightarrow> keras_model" where
  "keras_demo p = \<lparr>
     layers = [\<lparr>name = ''stem_conv1'', is_Conv2D = True\<rparr>, \<lparr>name = ''dense'', is_Conv2D = False\<rparr>],
     grad_model = (\<lambda>l x. Inr (x, [p])),
     tape_gradient = (\<lambda>l x k. Inr (map (map (map (map (\<lambda>v. 1)))) x)),
     model_predict = (\<lambda>x. Inr [p])
   \<rparr>"

definition mobilenet_demo :: "real list \<Rightarrow> mobilenet_predictor" where
  "mobilenet_demo p = \<lparr>
     prepare_image = (\<lambda>a. Inr [[[[1, 0]]]]),
     softmax_model = (\<lambda>t. Inr [p]),
     classifier = tiny_torch
   \<rparr>"

text \<open>A service on a one-pixel gray image: an empty upload does not decode.\<close>

definition service_demo :: "cv2 \<Rightarrow> real list \<Rightarrow> real list \<Rightarrow> model_service" where
  "service_demo cv p1 p2 = \<lparr>
     Image_open_RGB = (\<lambda>b. if b = [] then Inl (Error ''cannot identify image file'')
                          else Inr [[[128, 128, 128]]]),
     opencv = cv,
     mobilenet = mobilenet_demo p1,
     nasnet = keras_demo p2,
     cv2_resize_heatmap = (\<lambda>h s. Inr h),
     encode_jpeg_base64 = (\<lambda>v. Inr ''/9j/4AAQ'')
   \<rparr>"

definition cv2_no_resize :: cv2 where
  "cv2_no_resize = cv2_failing\<lparr>resize_NEAREST := (\<lambda>i s. Inl (Error ''resize''))\<rparr>"

section \<open>Preprocessor: fail-soft steps\<close>

lemma and_then_Inl [simp]: "and_then (Inl e) f = Inl e"
  by (simp add: and_then_def)

lemma and_then_Inr [simp]: "and_then (Inr v) f = f v"
  by (simp add: and_then_def)

lemma try_except_Inl [simp]: "try_except (Inl e) h = h e"
  by (simp add: try_except_def)

lemma try_except_Inr [simp]: "try_except (Inr v) h = Inr v"
  by (simp add: try_except_def)

lemma raises_simps [simp]: "raises (Inl e) = True" "raises (Inr v) = False"
  by (simp_all add: raises_def)

lemma hair_remove_total: "\<exists>out. hair_remove cv img = Inr out"
  by (cases "hair_remove_try cv img") (simp_all add: hair_remove_def)

lemma sharpen_image_total: "\<exists>out. sharpen_image cv img = Inr out"
  by (cases "sharpen_image_try cv img") (simp_all add: sharpen_image_def)

text \<open>
  C7. When the body of hair removal raises, \<open>hair_remove\<close> returns the image it was given,
  and \<open>preprocess\<close> is then sharpening and resize of the input; when the body of sharpening
  raises, \<open>sharpen_image\<close> returns the image it was given; and neither step raises to
  \<open>preprocess\<close>, whatever OpenCV does.
\<close>

theorem C7_fail_soft:
  "(raises (hair_remove_try cv img) \<longrightarrow>
      hair_remove cv img = Inr img \<and>
      preprocess cv target_size img = sharpen_then_resize cv target_size img) \<and>
   (raises (sharpen_image_try cv img) \<longrightarrow> sharpen_image cv img = Inr img) \<and>
   \<not> raises (hair_remove cv img) \<and> \<not> raises (sharpen_image cv img)"
proof -
  have soft_hair: "hair_remove cv img = Inr img" if "raises (hair_remove_try cv img)"
    using that by (cases "hair_remove_try cv img") (simp_all add: hair_remove_def)
  have soft_sharp: "sharpen_image cv img = Inr img" if "raises (sharpen_image_try cv img)"
    using that by (cases "sharpen_image_try cv img") (simp_all add: sharpen_image_def)
  have pre: "preprocess cv target_size img = sharpen_then_resize cv target_size img"
    if "raises (hair_remove_try cv img)"
    using soft_hair [OF that]
    by (simp add: preprocess_def preprocess_try_def sharpen_then_resize_def)
  have no_hair: "\<not> raises (hair_remove cv img)"
    using hair_remove_total [of cv img] by auto
  have no_sharp: "\<not> raises (sharpen_image cv img)"
    using sharpen_image_total [of cv img] by auto
  from soft_hair soft_sharp pre no_hair no_sharp show ?thesis by blast
qed

theorem C7_fail_soft_witness:
  "raises (hair_remove_try cv2_failing [[[1, 2, 3]]]) \<and>
   raises (sharpen_image_try cv2_failing [[[1, 2, 3]]]) \<and>
   hair_remove cv2_failing [[[1, 2, 3]]] = Inr [[[1, 2, 3]]] \<and>
   sharpen_image cv2_failing [[[1, 2, 3]]] = Inr [[[1, 2, 3]]] \<and>
   preprocess cv2_failing (224, 224) [[[1, 2, 3]]] = Inr (Some [[[1, 2, 3]]])"
proof -
  have h: "raises (hair_remove_try cv2_failing [[[1, 2, 3]]])"
    by (simp add: hair_remove_try_def cv2_failing_def)
  have s: "raises (sharpen_image_try cv2_failing [[[1, 2, 3]]])"
    by (simp add: sharpen_image_try_def cv2_failing_def)
  have r: "sharpen_then_resize cv2_failing (224, 224) [[[1, 2, 3]]] = Inr (Some [[[1, 2, 3]]])"
    by (simp add: sharpen_then_resize_def sharpen_image_def sharpen_image_try_def
        cv2_failing_def)
  from C7_fail_soft [of cv2_failing "[[[1, 2, 3]]]" "(224, 224)"] h s r
  show ?thesis by simp
qed

text \<open>
  C10. \<open>preprocess\<close> and \<open>process_bytes\<close> never raise: each returns a value, which is
  \<open>None\<close> exactly when the body of its \<open>try\<close> raised or itself produced \<open>None\<close>; for
  \<open>preprocess\<close> the only call that can raise is the resize, and then the result is \<open>None\<close>.
\<close>

theorem C10_never_raise:
  "\<not> raises (preprocess cv target_size img) \<and>
   \<not> raises (process_bytes cv target_size image_bytes) \<and>
   (preprocess cv target_size img = Inr None
      \<longleftrightarrow> raises (preprocess_try cv target_size img)) \<and>
   (raises (preprocess_try cv target_size img)
      \<longleftrightarrow> (\<exists>a b. hair_remove cv img = Inr a \<and> sharpen_image cv a = Inr b \<and>
                 raises (resize_NEAREST cv b target_size))) \<and>
   (process_bytes cv target_size image_bytes = Inr None
      \<longleftrightarrow> raises (process_bytes_try cv target_size image_bytes) \<or>
          process_bytes_try cv target_size image_bytes = Inr None)"
proof -
  have p1: "\<not> raises (preprocess cv target_size img)"
    by (cases "preprocess_try cv target_size img") (simp_all add: preprocess_def)
  have p2: "\<not> raises (process_bytes cv target_size image_bytes)"
    by (cases "process_bytes_try cv target_size image_bytes")
      (simp_all add: process_bytes_def)
  have some: "preprocess_try cv target_size img \<noteq> Inr None"
  proof -
    obtain a where a: "hair_remove cv img = Inr a"
      using hair_remove_total by blast
    obtain b where b: "sharpen_image cv a = Inr b"
      using sharpen_image_total by blast
    show ?thesis
      by (cases "resize_NEAREST cv b target_size") (simp_all add: preprocess_try_def a b)
  qed
  have p3: "preprocess cv target_size img = Inr None
      \<longleftrightarrow> raises (preprocess_try cv target_size img)"
    using some by (cases "preprocess_try cv target_size img") (simp_all add: preprocess_def)
  have p4: "raises (preprocess_try cv target_size img)
      \<longleftrightarrow> (\<exists>a b. hair_remove cv img = Inr a \<and> sharpen_image cv a = Inr b \<and>
                 raises (resize_NEAREST cv b target_size))"
  proof -
    obtain a where a: "hair_remove cv img = Inr a"
      using hair_remove_total by blast
    obtain b where b: "sharpen_image cv a = Inr b"
      using sharpen_image_total by blast
    show ?thesis
      by (cases "resize_NEAREST cv b target_size") (simp_all add: preprocess_try_def a b)
  qed
  have p5: "process_bytes cv target_size image_bytes = Inr None
      \<longleftrightarrow> raises (process_bytes_try cv target_size image_bytes) \<or>
          process_bytes_try cv target_size image_bytes = Inr None"
    by (cases "process_bytes_try cv target_size image_bytes")
      (simp_all add: process_bytes_def)
  from p1 p2 p3 p4 p5 show ?thesis by blast
qed

theorem C10_never_raise_witness:
  "process_bytes cv2_failing (224, 224) [0, 1, 2] = Inr None \<and>
   raises (process_bytes_try cv2_failing (224, 224) [0, 1, 2]) \<and>
   preprocess cv2_failing (224, 224) [[[1, 2, 3]]] = Inr (Some [[[1, 2, 3]]])"
proof -
  have r: "raises (process_bytes_try cv2_failing (224, 224) [0, 1, 2])"
    by (simp add: process_bytes_try_def cv2_failing_def)
  have q: "preprocess cv2_failing (224, 224) [[[1, 2, 3]]] = Inr (Some [[[1, 2, 3]]])"
    by (simp add: preprocess_def preprocess_try_def hair_remove_def hair_remove_try_def
        sharpen_image_def sharpen_image_try_def cv2_failing_def)
  from C10_never_raise [of cv2_failing "(224, 224)" "[[[1, 2, 3]]]" "[0, 1, 2]"] r q
  show ?thesis by simp
qed

section \<open>Cascade controller\<close>

lemma then_t_Inr [simp]: "then_t (Inr v, t) f = (fst (f v), t @ snd (f v))"
  by (simp add: then_t_def split: prod.splits)

lemma then_t_Inl [simp]: "then_t (Inl e, t) f = (Inl e, t)"
  by (simp add: then_t_def)

lemma argmax_from_less: "best < i \<Longrightarrow> argmax_from best bv i xs < i + length xs"
proof (induction xs arbitrary: best bv i)
  case Nil
  then show ?case by simp
next
  case (Cons x xs)
  have a: "argmax_from i x (Suc i) xs < Suc i + length xs"
    by (rule Cons.IH) simp
  have b: "argmax_from best bv (Suc i) xs < Suc i + length xs"
    by (rule Cons.IH) (use Cons.prems in simp)
  from a b show ?case by simp
qed

lemma argmax_less: "argmax xs = Inr k \<Longrightarrow> k < length xs"
  using argmax_from_less [of 0 1 _ "tl xs"]
  by (cases xs) (auto simp: argmax_def)

lemma dict_get_enumerate: "k < length xs \<Longrightarrow> dict_get (enumerate 0 xs) k = Inr (xs ! k)"
proof -
  assume k: "k < length xs"
  have "map_of (zip [0..<length xs] xs) ([0..<length xs] ! k) = Some (xs ! k)"
    using k by (intro map_of_zip_nth) simp_all
  then show ?thesis using k by (simp add: dict_get_def enumerate_eq_zip)
qed

lemma and_then_Inr_iff:
  "and_then m f = Inr r \<longleftrightarrow> (\<exists>v. m = Inr v \<and> f v = Inr r)"
  by (cases m) (simp_all add: and_then_def)

lemma nasnet_index_in_range:
  assumes "nasnet_predict_with_gradcam km rs t = Inr r"
  shows "gc_class_index r < length (gc_probabilities r)"
  using assms
  by (auto simp: nasnet_predict_with_gradcam_def and_then_Inr_iff dest: argmax_less)

lemma stage1_predict:
  assumes "prepare_image mn p = Inr t" and "softmax_model mn t = Inr [row]"
    and "argmax row = Inr k"
  shows "predict mn p = Inr \<lparr>class_index = k, probabilities = row\<rparr>"
  using assms by (simp add: predict_def and_then_def nth_or_raise_def)

text \<open>
  C8. When the upload decodes and preprocesses, Stage 1 returns the probabilities
  \<open>[0.9, 0.1]\<close>, Stage 2 returns with class index 4 and the visualisation encodes, then
  \<open>process_image\<close> has called Stage 2 (once, after Stage 1) and returns the class name
  \<open>Melanoma\<close>, the model \<open>NASNetMobile\<close> and as confidence Stage 2's probability at index 4.
\<close>

theorem C8_stage2_melanoma:
  assumes "Image_open_RGB svc image_bytes = Inr a"
    and "preprocess (opencv svc) (224, 224) a = Inr (Some p)"
    and "prepare_image (mobilenet svc) p = Inr t"
    and "softmax_model (mobilenet svc) t = Inr [[9 / 10, 1 / 10]]"
    and "nasnet_predict_with_gradcam (nasnet svc) (cv2_resize_heatmap svc)
           (Rank3 (map (map (map (\<lambda>v. v / 255))) p)) = Inr r"
    and "gc_class_index r = 4"
    and "encode_jpeg_base64 svc (gradcam_visualization r) = Inr s"
  shows "process_image svc image_bytes =
           (Inr \<lparr>class_name = ''Melanoma'', confidence = gc_probabilities r ! 4,
                 model_used = ''NASNetMobile'', visualization = s\<rparr>,
            [MobileNet_predict, NASNet_predict_with_gradcam])"
proof -
  have m: "predict (mobilenet svc) p = Inr \<lparr>class_index = 0, probabilities = [9 / 10, 1 / 10]\<rparr>"
    using assms(3,4) by (intro stage1_predict) (simp_all add: argmax_def)
  have "4 < length (gc_probabilities r)"
    using nasnet_index_in_range [OF assms(5)] assms(6) by simp
  then have conf: "dict_get (enumerate 0 (gc_probabilities r)) 4 = Inr (gc_probabilities r ! 4)"
    by (rule dict_get_enumerate)
  have label: "dict_get nasnet_classes 4 = Inr ''Melanoma''"
    by (simp add: dict_get_def nasnet_classes_def)
  show ?thesis
    using assms(1,2,5,6,7) m conf label
    by (simp add: process_image_def process_image_try_def final_verdict_def nth_or_raise_def
        quiet_def logged_def)
qed


lemma demo_preprocess:
  "preprocess cv2_failing (224, 224) [[[128, 128, 128]]] = Inr (Some [[[128, 128, 128]]])"
  by (simp add: preprocess_def preprocess_try_def hair_remove_def hair_remove_try_def
      sharpen_image_def sharpen_image_try_def cv2_failing_def)

lemma demo_stage2:
  "nasnet_predict_with_gradcam (keras_demo [0, 0, 0, 0, 1, 0, 0]) (\<lambda>h s. Inr h)
     (Rank3 (map (map (map (\<lambda>v. v / 255))) [[[128, 128, 128]]]))
   = Inr \<lparr>gc_class_index = 4, gc_probabilities = [0, 0, 0, 0, 1, 0, 0],
          gradcam_visualization = [[[1, 0, 0]]]\<rparr>"
  by (simp add: nasnet_predict_with_gradcam_def keras_demo_def nth_or_raise_def argmax_def
      tensorflow_grad_cam_def resolve_target_layer_def get_layer_def grad_cam_on_layer_def
      fix_input_shape_def shape2_def normalize_batch_def minmax_scaler_def amin_def amax_def
      tf_normalize_def tf_raw_heatmap_def weighted_sum_def reduce_mean_12_def channels_def
      reduce_max_def fdiv_def apply_grad_cam_def red_overlay_def np_uint8_def times255_def
      clip01_def eps_def)

theorem C8_stage2_melanoma_witness:
  "process_image (service_demo cv2_failing [9 / 10, 1 / 10] [0, 0, 0, 0, 1, 0, 0]) [1] =
     (Inr \<lparr>class_name = ''Melanoma'', confidence = 1, model_used = ''NASNetMobile'',
           visualization = ''/9j/4AAQ''\<rparr>,
      [MobileNet_predict, NASNet_predict_with_gradcam])"
  using C8_stage2_melanoma [of "service_demo cv2_failing [9 / 10, 1 / 10] [0, 0, 0, 0, 1, 0, 0]"
      "[1]" "[[[128, 128, 128]]]" "[[[128, 128, 128]]]" "[[[[1, 0]]]]"
      "\<lparr>gc_class_index = 4, gc_probabilities = [0, 0, 0, 0, 1, 0, 0],
        gradcam_visualization = [[[1, 0, 0]]]\<rparr>" "''/9j/4AAQ''"]
    demo_preprocess demo_stage2
  by (simp add: service_demo_def mobilenet_demo_def)

text \<open>
  C1. When the upload decodes and preprocesses and Stage 1 predicts a class other than 0
  (class 1, as for the probabilities \<open>[0.2, 0.8]\<close>), \<open>process_image\<close> does not return a
  result for \<open>MobileNetV2\<close>: reading the attribute \<open>gradcam_visualization\<close> raises, and
  the request ends with status 500.
\<close>

theorem C1_stage1_terminal:
  assumes "Image_open_RGB svc image_bytes = Inr a"
    and "preprocess (opencv svc) (224, 224) a = Inr (Some p)"
    and "predict (mobilenet svc) p = Inr m"
    and "class_index m \<noteq> 0" and "class_index m < length (probabilities m)"
  shows "fst (process_image svc image_bytes) =
           Inl (HTTPException 500 (Str (AttributeError
             ''MobileNetPredictor object has no attribute gradcam_visualization'')))"
  using assms
  by (simp add: process_image_def process_image_try_def final_verdict_def nth_or_raise_def
      quiet_def logged_def)

lemma demo_stage1:
  "predict (mobilenet_demo [a, b]) p =
     Inr \<lparr>class_index = (if a < b then 1 else 0), probabilities = [a, b]\<rparr>"
  by (simp add: predict_def mobilenet_demo_def argmax_def nth_or_raise_def)

theorem C1_stage1_terminal_witness:
  "fst (process_image (service_demo cv2_failing [1 / 5, 4 / 5] [0, 0, 0, 0, 1, 0, 0]) [1]) =
     Inl (HTTPException 500 (Str (AttributeError
       ''MobileNetPredictor object has no attribute gradcam_visualization'')))"
  using C1_stage1_terminal [of "service_demo cv2_failing [1 / 5, 4 / 5] [0, 0, 0, 0, 1, 0, 0]"
      "[1]" "[[[128, 128, 128]]]" "[[[128, 128, 128]]]"
      "\<lparr>class_index = 1, probabilities = [1 / 5, 4 / 5]\<rparr>"]
    demo_preprocess demo_stage1 [of "1 / 5" "4 / 5"]
  by (simp add: service_demo_def)

text \<open>
  Stage 2's visualisation is the attribution of its own model, for the class that this
  same call predicted.
\<close>

lemma nasnet_attribution_target:
  assumes "nasnet_predict_with_gradcam km rs t = Inr r"
  shows "\<exists>preds origs heats.
           model_predict km (case t of Rank3 a \<Rightarrow> [a] | Rank4 b \<Rightarrow> b) = Inr preds \<and>
           preds \<noteq> [] \<and> argmax (preds ! 0) = Inr (gc_class_index r) \<and>
           gc_probabilities r = preds ! 0 \<and>
           tensorflow_grad_cam km t (gc_class_index r) ''conv2d_93'' = Inr (origs, heats) \<and>
           origs \<noteq> [] \<and> heats \<noteq> [] \<and>
           apply_grad_cam rs (origs ! 0) (heats ! 0) 0.4 = Inr (gradcam_visualization r)"
  using assms
  by (auto simp: nasnet_predict_with_gradcam_def and_then_Inr_iff nth_or_raise_def
      split: if_splits)

text \<open>
  C4. After a successful Stage-1 prediction: when its class is not 0, Stage 2 is never
  called, and no attribution has run either, since the request has failed; when its class
  is 0, Stage 2's \<open>predict_with_gradcam\<close> is called exactly once, after Stage 1, and
  by \<open>nasnet_attribution_target\<close> its heatmap is for its own prediction.
\<close>

theorem C4_attribution_paths:
  assumes "Image_open_RGB svc image_bytes = Inr a"
    and "preprocess (opencv svc) (224, 224) a = Inr (Some p)"
    and "predict (mobilenet svc) p = Inr m"
    and "class_index m < length (probabilities m)"
  shows "(class_index m \<noteq> 0 \<longrightarrow>
            snd (process_image svc image_bytes) = [MobileNet_predict] \<and>
            raises (fst (process_image svc image_bytes))) \<and>
         (class_index m = 0 \<longrightarrow>
            snd (process_image svc image_bytes) =
              [MobileNet_predict, NASNet_predict_with_gradcam])"
proof -
  have conf: "nth_or_raise (probabilities m) (class_index m)
                = Inr (probabilities m ! class_index m)"
    using assms(4) by (simp add: nth_or_raise_def)
  have terminal: "snd (process_image svc image_bytes) = [MobileNet_predict] \<and>
      raises (fst (process_image svc image_bytes))" if "class_index m \<noteq> 0"
    using assms(1,2,3) conf that
    by (simp add: process_image_def process_image_try_def final_verdict_def
        quiet_def logged_def)
  have specialist: "snd (process_image svc image_bytes) =
      [MobileNet_predict, NASNet_predict_with_gradcam]" if "class_index m = 0"
    using assms(1,2,3) conf that
    by (auto simp add: process_image_def process_image_try_def final_verdict_def
        quiet_def logged_def then_t_def split: prod.splits sum.splits)
  from terminal specialist show ?thesis by blast
qed


theorem C4_attribution_paths_witness:
  "snd (process_image (service_demo cv2_failing [1 / 5, 4 / 5] [0, 0, 0, 0, 1, 0, 0]) [1])
     = [MobileNet_predict] \<and>
   raises (fst (process_image (service_demo cv2_failing [1 / 5, 4 / 5] [0, 0, 0, 0, 1, 0, 0]) [1])) \<and>
   snd (process_image (service_demo cv2_failing [9 / 10, 1 / 10] [0, 0, 0, 0, 1, 0, 0]) [1])
     = [MobileNet_predict, NASNet_predict_with_gradcam]"
  using C4_attribution_paths [of "service_demo cv2_failing [1 / 5, 4 / 5] [0, 0, 0, 0, 1, 0, 0]"
      "[1]" "[[[128, 128, 128]]]" "[[[128, 128, 128]]]"
      "\<lparr>class_index = 1, probabilities = [1 / 5, 4 / 5]\<rparr>"]
    C4_attribution_paths [of "service_demo cv2_failing [9 / 10, 1 / 10] [0, 0, 0, 0, 1, 0, 0]"
      "[1]" "[[[128, 128, 128]]]" "[[[128, 128, 128]]]"
      "\<lparr>class_index = 0, probabilities = [9 / 10, 1 / 10]\<rparr>"]
    demo_preprocess demo_stage1 [of "1 / 5" "4 / 5"] demo_stage1 [of "9 / 10" "1 / 10"]
  by (simp add: service_demo_def)

lemma process_image_status:
  "raises (fst (process_image svc b)) \<Longrightarrow> status_seen (process_image svc b) = 500"
  by (cases "process_image_try svc b"; cases "fst (process_image_try svc b)")
    (simp_all add: process_image_def status_seen_def)

text \<open>
  C5. An upload declared as an image that does not decode, or whose preprocessing yields
  \<open>None\<close>, is answered with status 500: the \<open>HTTPException\<close> with status 400 of line 73
  is caught by the handler of line 110 and wrapped.
\<close>

theorem C5_invalid_input_status:
  assumes "starts_with ct ''image/''"
    and "raises (Image_open_RGB svc b) \<or>
         (\<exists>a. Image_open_RGB svc b = Inr a \<and> preprocess (opencv svc) (224, 224) a = Inr None)"
  shows "status_seen (predict_endpoint svc (Some ct) b) = 500 \<and>
         ((\<exists>a. Image_open_RGB svc b = Inr a \<and> preprocess (opencv svc) (224, 224) a = Inr None)
            \<longrightarrow> fst (process_image svc b) =
                  Inl (HTTPException 500
                         (Str (HTTPException 400 (Literal ''Image preprocessing failed'')))))"
proof -
  have none: "fst (process_image svc b) =
      Inl (HTTPException 500 (Str (HTTPException 400 (Literal ''Image preprocessing failed''))))"
    if "Image_open_RGB svc b = Inr a" "preprocess (opencv svc) (224, 224) a = Inr None" for a
    using that by (simp add: process_image_def process_image_try_def quiet_def)
  have undecodable: "raises (fst (process_image svc b))" if "raises (Image_open_RGB svc b)"
    using that
    by (cases "Image_open_RGB svc b")
      (simp_all add: process_image_def process_image_try_def quiet_def)
  have "raises (fst (process_image svc b))"
    using assms(2) none undecodable by auto
  then have "status_seen (process_image svc b) = 500"
    by (rule process_image_status)
  then have "status_seen (predict_endpoint svc (Some ct) b) = 500"
    using assms(1) by (simp add: predict_endpoint_def)
  with none show ?thesis by blast
qed

theorem C5_invalid_input_status_witness:
  "status_seen (predict_endpoint
      (service_demo cv2_failing [9 / 10, 1 / 10] [0, 0, 0, 0, 1, 0, 0]) (Some ''image/png'') [])
     = 500 \<and>
   status_seen (predict_endpoint
      (service_demo cv2_no_resize [9 / 10, 1 / 10] [0, 0, 0, 0, 1, 0, 0]) (Some ''image/png'') [1])
     = 500 \<and>
   fst (process_image (service_demo cv2_no_resize [9 / 10, 1 / 10] [0, 0, 0, 0, 1, 0, 0]) [1]) =
     Inl (HTTPException 500 (Str (HTTPException 400 (Literal ''Image preprocessing failed''))))"
proof -
  have ct: "starts_with ''image/png'' ''image/''"
    by (simp add: starts_with_def)
  have bad: "raises (Image_open_RGB
      (service_demo cv2_failing [9 / 10, 1 / 10] [0, 0, 0, 0, 1, 0, 0]) [])"
    by (simp add: service_demo_def)
  have none: "\<exists>a. Image_open_RGB
        (service_demo cv2_no_resize [9 / 10, 1 / 10] [0, 0, 0, 0, 1, 0, 0]) [1] = Inr a \<and>
      preprocess (opencv (service_demo cv2_no_resize [9 / 10, 1 / 10] [0, 0, 0, 0, 1, 0, 0]))
        (224, 224) a = Inr None"
    by (simp add: service_demo_def preprocess_def preprocess_try_def hair_remove_def
        hair_remove_try_def sharpen_image_def sharpen_image_try_def cv2_failing_def
        cv2_no_resize_def)
  from C5_invalid_input_status [OF ct disjI1 [OF bad]]
    C5_invalid_input_status [OF ct disjI2 [OF none]] none
  show ?thesis by blast
qed

section \<open>Attribution engine\<close>

lemma eps_pos: "0 < eps"
  by (simp add: eps_def)

lemma amin_le: "amin x xs \<le> x \<and> (\<forall>v\<in>set xs. amin x xs \<le> v)"
  unfolding amin_def
proof (induction xs arbitrary: x)
  case Nil
  then show ?case by simp
next
  case (Cons y ys)
  from Cons.IH [of "min y x"] show ?case by auto
qed

lemma amax_ge: "x \<le> amax x xs \<and> (\<forall>v\<in>set xs. v \<le> amax x xs)"
  unfolding amax_def
proof (induction xs arbitrary: x)
  case Nil
  then show ?case by simp
next
  case (Cons y ys)
  from Cons.IH [of "max y x"] show ?case by auto
qed

lemma minmax_scaler_bounds:
  assumes "minmax_scaler flat = Inr f" and "v \<in> set flat"
  shows "0 \<le> f v \<and> f v \<le> 1"
proof (cases flat)
  case Nil
  with assms show ?thesis by simp
next
  case (Cons x xs)
  have f: "f = (\<lambda>v. (v - amin x xs) / (amax x xs - amin x xs + eps))"
    using assms(1) Cons by (simp add: minmax_scaler_def)
  have lo: "amin x xs \<le> v" and hi: "v \<le> amax x xs"
    using assms(2) Cons amin_le [of x xs] amax_ge [of x xs] by auto
  have den: "0 < amax x xs - amin x xs + eps"
    using lo hi eps_pos by linarith
  have "v - amin x xs \<le> amax x xs - amin x xs + eps"
    using hi eps_pos by linarith
  then show ?thesis
    using lo den by (simp add: f)
qed

lemma normalize_grid_bounds:
  assumes "normalize_grid h = Inr n" and "row \<in> set n" and "v \<in> set row"
  shows "0 \<le> v \<and> v \<le> 1"
proof -
  obtain f where f: "minmax_scaler (concat h) = Inr f" and n: "n = map (map f) h"
    using assms(1) by (auto simp: normalize_grid_def and_then_Inr_iff)
  from assms(2,3) n obtain r u where "r \<in> set h" "u \<in> set r" "v = f u"
    by auto
  then show ?thesis
    using minmax_scaler_bounds [OF f, of u] by auto
qed

lemma minmax_scaler_uniform:
  assumes "minmax_scaler flat = Inr f" and "\<forall>u\<in>set flat. u = c" and "v \<in> set flat"
  shows "f v = 0"
proof (cases flat)
  case Nil
  with assms show ?thesis by simp
next
  case (Cons x xs)
  have f: "f = (\<lambda>v. (v - amin x xs) / (amax x xs - amin x xs + eps))"
    using assms(1) Cons by (simp add: minmax_scaler_def)
  have "amin x xs \<le> c" "c \<le> amax x xs"
    using amin_le [of x xs] amax_ge [of x xs] assms(2) Cons by auto
  moreover have "fold min xs x \<in> set (x # xs)" for x :: real and xs
    by (induction xs arbitrary: x) (auto simp: min_def)
  then have "amin x xs = c"
    using assms(2) Cons by (auto simp: amin_def)
  ultimately show ?thesis
    using assms(2,3) by (simp add: f)
qed

lemma normalize_grid_uniform:
  assumes "normalize_grid h = Inr n" and "\<forall>u\<in>set (concat h). u = c"
  shows "n = map (map (\<lambda>v. 0)) h"
proof -
  obtain f where f: "minmax_scaler (concat h) = Inr f" and n: "n = map (map f) h"
    using assms(1) by (auto simp: normalize_grid_def and_then_Inr_iff)
  have "f v = 0" if "r \<in> set h" "v \<in> set r" for r v
    using minmax_scaler_uniform [OF f assms(2), of v] that by auto
  then show ?thesis
    by (simp add: n)
qed

lemma normalize_grid_total: "concat h \<noteq> [] \<Longrightarrow> \<exists>n. normalize_grid h = Inr n"
  by (cases "concat h") (simp_all add: normalize_grid_def minmax_scaler_def)

lemma pytorch_heatmap_normalized:
  assumes "pytorch_grad_cam model x k nm = Inr (orig, heat)"
  shows "\<exists>n layer raw. find (\<lambda>(n, module). n = nm) (target_named_modules model) = Some (n, layer) \<and>
           pytorch_raw_heatmap model layer x k = Inr raw \<and> normalize_grid raw = Inr heat"
  using assms
  by (auto simp: pytorch_grad_cam_def and_then_Inr_iff split: option.splits)

lemma reduce_max_ge: "v \<in> set flat \<Longrightarrow> v \<le> reduce_max flat"
  using amax_ge by (cases flat) (auto simp: reduce_max_def)

lemma tf_cell_bounds:
  assumes "reduce_max flat \<noteq> 0" and "v \<in> set flat"
  shows "\<exists>u. fdiv (max v 0) (reduce_max flat) = Fin u \<and> 0 \<le> u \<and> u \<le> 1"
proof (cases "0 < reduce_max flat")
  case True
  have "v \<le> reduce_max flat"
    using assms(2) by (rule reduce_max_ge)
  then have "0 \<le> max v 0 / reduce_max flat \<and> max v 0 / reduce_max flat \<le> 1"
    using True by simp
  then show ?thesis
    using assms(1) by (simp add: fdiv_def)
next
  case False
  have "v \<le> reduce_max flat"
    using assms(2) by (rule reduce_max_ge)
  then have "max v 0 = 0"
    using False assms(1) by simp
  then show ?thesis
    using assms(1) by (simp add: fdiv_def)
qed

lemma tf_normalize_cells:
  assumes "g \<in> set (tf_normalize raw)" and "row \<in> set g" and "s \<in> set row"
  shows "\<exists>v \<in> set (concat (concat raw)). s = fdiv (max v 0) (reduce_max (concat (concat raw)))"
  using assms by (fastforce simp: tf_normalize_def)

lemma tf_reduce_max_uniform:
  assumes "\<forall>v\<in>set flat. v = c" and "flat \<noteq> []"
  shows "reduce_max flat = c"
proof -
  have "fold max xs x \<in> set (x # xs)" for x :: real and xs
    by (induction xs arbitrary: x) (auto simp: max_def)
  then show ?thesis
    using assms by (cases flat) (auto simp: reduce_max_def amax_def)
qed

lemma minmax_divisor_pos: "0 < amax y ys - amin y ys + eps"
proof -
  have "amin y ys \<le> y" "y \<le> amax y ys"
    using amin_le [of y ys] amax_ge [of y ys] by simp_all
  then show ?thesis
    using eps_pos by linarith
qed

lemma normalize_grid_formula:
  assumes "normalize_grid raw = Inr heat"
  shows "\<exists>y ys. concat raw = y # ys \<and>
           heat = map (map (\<lambda>v. (v - amin y ys) / (amax y ys - amin y ys + eps))) raw"
  using assms
  by (cases "concat raw") (simp_all add: normalize_grid_def minmax_scaler_def)

lemma tensorflow_heatmap_normalized:
  assumes "tensorflow_grad_cam km t cls lname = Inr (origs, heats)"
  shows "\<exists>layer conv preds grads.
           resolve_target_layer km lname = Inr layer \<and>
           grad_model km layer (fix_input_shape t) = Inr (conv, preds) \<and>
           tape_gradient km layer (fix_input_shape t) cls = Inr grads \<and>
           heats = tf_normalize (tf_raw_heatmap grads conv)"
  using assms
  by (auto simp: tensorflow_grad_cam_def grad_cam_on_layer_def and_then_Inr_iff)


text \<open>
  C2, amended. PyTorch variant: the heatmap that \<open>pytorch_grad_cam\<close> returns is
  \<open>(h - min(h)) / (max(h) - min(h) + \<epsilon>)\<close> of the rectified heatmap \<open>h\<close> before
  normalisation, the divisor is positive, every cell lies in [0,1], and a uniform \<open>h\<close>
  gives all zeros. TensorFlow variant: the heatmap that \<open>tensorflow_grad_cam\<close> returns is
  \<open>max(h, 0) / max(h)\<close> of the weighted sum \<open>h\<close> of the resolved layer's output, with no
  \<open>\<epsilon>\<close> and no subtraction of the minimum; its cells lie in [0,1] when \<open>max(h)\<close> is not
  zero, and a uniform positive \<open>h\<close> gives all ones.
\<close>

theorem C2_heatmap_bounds:
  "(pytorch_grad_cam model x k nm = Inr (orig, heat) \<longrightarrow>
      (\<forall>row\<in>set heat. \<forall>v\<in>set row. 0 \<le> v \<and> v \<le> 1) \<and>
      (\<forall>n layer raw c.
          find (\<lambda>(n, module). n = nm) (target_named_modules model) = Some (n, layer) \<and>
          pytorch_raw_heatmap model layer x k = Inr raw \<and> (\<forall>u\<in>set (concat raw). u = c)
          \<longrightarrow> heat = map (map (\<lambda>v. 0)) raw) \<and>
      (\<exists>n layer raw y ys.
          find (\<lambda>(n, module). n = nm) (target_named_modules model) = Some (n, layer) \<and>
          pytorch_raw_heatmap model layer x k = Inr raw \<and> concat raw = y # ys \<and>
          0 < amax y ys - amin y ys + eps \<and>
          heat = map (map (\<lambda>v. (v - amin y ys) / (amax y ys - amin y ys + eps))) raw)) \<and>
   (tensorflow_grad_cam km t cls lname = Inr (origs, heats) \<longrightarrow>
      (\<exists>layer conv preds grads.
         resolve_target_layer km lname = Inr layer \<and>
         grad_model km layer (fix_input_shape t) = Inr (conv, preds) \<and>
         tape_gradient km layer (fix_input_shape t) cls = Inr grads \<and>
         heats = tf_normalize (tf_raw_heatmap grads conv) \<and>
         (reduce_max (concat (concat (tf_raw_heatmap grads conv))) \<noteq> 0 \<longrightarrow>
            (\<forall>g\<in>set heats. \<forall>row\<in>set g. \<forall>s\<in>set row. \<exists>v. s = Fin v \<and> 0 \<le> v \<and> v \<le> 1)) \<and>
         (\<forall>c. 0 < c \<and> (\<forall>u\<in>set (concat (concat (tf_raw_heatmap grads conv))). u = c) \<longrightarrow>
            (\<forall>g\<in>set heats. \<forall>row\<in>set g. \<forall>s\<in>set row. s = Fin 1))))"
proof -
  have torch: "(\<forall>row\<in>set heat. \<forall>v\<in>set row. 0 \<le> v \<and> v \<le> 1) \<and>
      (\<forall>n layer raw c.
          find (\<lambda>(n, module). n = nm) (target_named_modules model) = Some (n, layer) \<and>
          pytorch_raw_heatmap model layer x k = Inr raw \<and> (\<forall>u\<in>set (concat raw). u = c)
          \<longrightarrow> heat = map (map (\<lambda>v. 0)) raw) \<and>
      (\<exists>n layer raw y ys.
          find (\<lambda>(n, module). n = nm) (target_named_modules model) = Some (n, layer) \<and>
          pytorch_raw_heatmap model layer x k = Inr raw \<and> concat raw = y # ys \<and>
          0 < amax y ys - amin y ys + eps \<and>
          heat = map (map (\<lambda>v. (v - amin y ys) / (amax y ys - amin y ys + eps))) raw)"
    if ok: "pytorch_grad_cam model x k nm = Inr (orig, heat)"
  proof -
    obtain n layer raw where
      l: "find (\<lambda>(n, module). n = nm) (target_named_modules model) = Some (n, layer)" and
      r: "pytorch_raw_heatmap model layer x k = Inr raw" and
      h: "normalize_grid raw = Inr heat"
      using pytorch_heatmap_normalized [OF ok] by blast
    have b: "\<forall>row\<in>set heat. \<forall>v\<in>set row. 0 \<le> v \<and> v \<le> 1"
      using normalize_grid_bounds [OF h] by blast
    have u: "heat = map (map (\<lambda>v. 0)) raw'"
      if same: "find (\<lambda>(n, module). n = nm) (target_named_modules model) = Some (n', layer')"
        "pytorch_raw_heatmap model layer' x k = Inr raw'"
        and uni: "\<forall>u\<in>set (concat raw'). u = c"
      for n' layer' raw' c
    proof -
      from same l r have "raw' = raw" by simp
      with uni normalize_grid_uniform [OF h] show ?thesis by blast
    qed
    obtain y ys where f: "concat raw = y # ys"
      "heat = map (map (\<lambda>v. (v - amin y ys) / (amax y ys - amin y ys + eps))) raw"
      using normalize_grid_formula [OF h] by blast
    have e: "\<exists>n layer raw y ys.
          find (\<lambda>(n, module). n = nm) (target_named_modules model) = Some (n, layer) \<and>
          pytorch_raw_heatmap model layer x k = Inr raw \<and> concat raw = y # ys \<and>
          0 < amax y ys - amin y ys + eps \<and>
          heat = map (map (\<lambda>v. (v - amin y ys) / (amax y ys - amin y ys + eps))) raw"
      using l r f minmax_divisor_pos [of y ys] by blast
    from b u e show ?thesis by blast
  qed
  have tf: "\<exists>layer conv preds grads.
         resolve_target_layer km lname = Inr layer \<and>
         grad_model km layer (fix_input_shape t) = Inr (conv, preds) \<and>
         tape_gradient km layer (fix_input_shape t) cls = Inr grads \<and>
         heats = tf_normalize (tf_raw_heatmap grads conv) \<and>
         (reduce_max (concat (concat (tf_raw_heatmap grads conv))) \<noteq> 0 \<longrightarrow>
            (\<forall>g\<in>set heats. \<forall>row\<in>set g. \<forall>s\<in>set row. \<exists>v. s = Fin v \<and> 0 \<le> v \<and> v \<le> 1)) \<and>
         (\<forall>c. 0 < c \<and> (\<forall>u\<in>set (concat (concat (tf_raw_heatmap grads conv))). u = c) \<longrightarrow>
            (\<forall>g\<in>set heats. \<forall>row\<in>set g. \<forall>s\<in>set row. s = Fin 1))"
    if ok: "tensorflow_grad_cam km t cls lname = Inr (origs, heats)"
  proof -
    obtain layer conv preds grads where
      pin: "resolve_target_layer km lname = Inr layer"
        "grad_model km layer (fix_input_shape t) = Inr (conv, preds)"
        "tape_gradient km layer (fix_input_shape t) cls = Inr grads"
      and raw: "heats = tf_normalize (tf_raw_heatmap grads conv)"
      using tensorflow_heatmap_normalized [OF ok] by blast
    let ?raw = "tf_raw_heatmap grads conv"
    have b: "\<exists>v. s = Fin v \<and> 0 \<le> v \<and> v \<le> 1"
      if nz: "reduce_max (concat (concat ?raw)) \<noteq> 0"
        and cell: "g \<in> set heats" "row \<in> set g" "s \<in> set row"
      for g row s
    proof -
      obtain v where "v \<in> set (concat (concat ?raw))"
        "s = fdiv (max v 0) (reduce_max (concat (concat ?raw)))"
        using tf_normalize_cells cell raw by blast
      then show ?thesis
        using tf_cell_bounds [OF nz] by blast
    qed
    have o: "s = Fin 1"
      if pos: "0 < c" and uni: "\<forall>u\<in>set (concat (concat ?raw)). u = c"
        and cell: "g \<in> set heats" "row \<in> set g" "s \<in> set row"
      for c g row s
    proof -
      obtain v where v: "v \<in> set (concat (concat ?raw))"
        "s = fdiv (max v 0) (reduce_max (concat (concat ?raw)))"
        using tf_normalize_cells cell raw by blast
      from v(1) have "concat (concat ?raw) \<noteq> []"
        by (cases "concat (concat ?raw)") simp_all
      then have "reduce_max (concat (concat ?raw)) = c"
        using tf_reduce_max_uniform uni by blast
      moreover have "v = c" using v(1) uni by blast
      ultimately show ?thesis
        using v(2) pos by (simp add: fdiv_def)
    qed
    from pin raw b o show ?thesis by blast
  qed
  from torch tf show ?thesis by blast
qed



lemma tf_normalize_zero_max:
  assumes "reduce_max (concat (concat raw)) = 0"
    and "g \<in> set (tf_normalize raw)" and "row \<in> set g" and "s \<in> set row"
  shows "s = NaN"
proof -
  obtain v where v: "v \<in> set (concat (concat raw))"
    "s = fdiv (max v 0) (reduce_max (concat (concat raw)))"
    using tf_normalize_cells assms(2,3,4) by blast
  have "v \<le> 0"
    using reduce_max_ge [OF v(1)] assms(1) by simp
  then show ?thesis
    using v(2) assms(1) by (simp add: fdiv_def max_def)
qed

lemma demo_tf:
  "tensorflow_grad_cam (keras_demo p) (Rank3 [[[a, b, c], [d, e, f]]]) 4 ''conv2d_93'' =
     and_then (normalize_batch [[[[a, b, c], [d, e, f]]]]) (\<lambda>original_image.
       Inr (original_image, tf_normalize [[[a + (b + c), d + (e + f)]]]))"
  by (simp add: tensorflow_grad_cam_def resolve_target_layer_def get_layer_def keras_demo_def
      grad_cam_on_layer_def fix_input_shape_def shape2_def tf_raw_heatmap_def weighted_sum_def
      reduce_mean_12_def channels_def)

text \<open>
  The claim fails on the TensorFlow variant: gradients and activation all 1 give the
  uniform heatmap 3 before normalisation, and the heatmap returned is all ones, not zeros.
\<close>

theorem C2_heatmap_bounds_counterexample:
  "tf_raw_heatmap [[[[1, 1, 1], [1, 1, 1]]]] [[[[1, 1, 1], [1, 1, 1]]]] = [[[3, 3]]] \<and>
   tensorflow_grad_cam (keras_demo [0, 0, 0, 0, 1, 0, 0]) (Rank3 [[[1, 1, 1], [1, 1, 1]]]) 4
       ''conv2d_93''
     = Inr ([[[[0, 0, 0], [0, 0, 0]]]], [[[Fin 1, Fin 1]]])"
  by (simp add: demo_tf tf_raw_heatmap_def weighted_sum_def reduce_mean_12_def channels_def
      normalize_batch_def minmax_scaler_def amin_def amax_def tf_normalize_def reduce_max_def
      fdiv_def)

theorem C2_heatmap_bounds_witness:
  "pytorch_grad_cam tiny_torch [[[[1, 0]]]] 1 ''features''
     = Inr ([[[100000000 / 100000001], [0]]], [[0, 0]]) \<and>
   pytorch_raw_heatmap tiny_torch tiny_features [[[[1, 0]]]] 1 = Inr [[0, 0]] \<and>
   pytorch_grad_cam tiny_torch [[[[1, 0]]]] 0 ''features''
     = Inr ([[[100000000 / 100000001], [0]]], [[200000000 / 200000001, 0]]) \<and>
   pytorch_raw_heatmap tiny_torch tiny_features [[[[1, 0]]]] 0 = Inr [[2, 0]] \<and>
   0 < amax 2 [0] - amin 2 [0] + eps \<and>
   tensorflow_grad_cam (keras_demo [0, 0, 0, 0, 1, 0, 0]) (Rank3 [[[1, 2, 3], [1, 1, 1]]]) 4
       ''conv2d_93''
     = Inr ([[[[0, 100000000 / 200000001, 200000000 / 200000001], [0, 0, 0]]]],
            [[[Fin 1, Fin (1 / 2)]]]) \<and>
   tf_raw_heatmap [[[[1, 1, 1], [1, 1, 1]]]] [[[[1, 2, 3], [1, 1, 1]]]] = [[[6, 3]]] \<and>
   tf_normalize (tf_raw_heatmap [[[[1, 1, 1], [1, 1, 1]]]] [[[[1, 2, 3], [1, 1, 1]]]])
     = [[[Fin 1, Fin (1 / 2)]]]"
proof -
  let ?x = "[[[[1, 0]]]] :: tensor4"
  let ?orig = "[[[100000000 / 100000001], [0]]] :: image"
  let ?origs = "[[[[0, 100000000 / 200000001, 200000000 / 200000001], [0, 0, 0]]]] :: image list"
  let ?km = "keras_demo [0, 0, 0, 0, 1, 0, 0]"
  let ?t = "Rank3 [[[1, 2, 3], [1, 1, 1]]]"
  have raw1: "pytorch_raw_heatmap tiny_torch tiny_features ?x 1 = Inr [[0, 0]]"
    by (simp add: pytorch_raw_heatmap_def tiny_torch_def tiny_features_def
      tiny_head_def one_hot_at_def spatial_mean_def nth_or_raise_def shape2_def zeros_def
      add_scaled_def relu_def)
  have raw0: "pytorch_raw_heatmap tiny_torch tiny_features ?x 0 = Inr [[2, 0]]"
    by (simp add: pytorch_raw_heatmap_def tiny_torch_def tiny_features_def
      tiny_head_def one_hot_at_def spatial_mean_def nth_or_raise_def shape2_def zeros_def
      add_scaled_def relu_def)
  have layer: "find (\<lambda>(n, module). n = ''features'') (target_named_modules tiny_torch)
      = Some (''features'', tiny_features)"
    by (simp add: tiny_torch_def)
  have torch1: "pytorch_grad_cam tiny_torch ?x 1 ''features'' = Inr (?orig, [[0, 0]])"
    using layer raw1
    by (simp add: pytorch_grad_cam_def normalize_grid_def normalize_image_def
        minmax_scaler_def amin_def amax_def chw_to_hwc_def nth_or_raise_def eps_def)
  have torch0: "pytorch_grad_cam tiny_torch ?x 0 ''features''
      = Inr (?orig, [[200000000 / 200000001, 0]])"
    using layer raw0
    by (simp add: pytorch_grad_cam_def normalize_grid_def normalize_image_def
        minmax_scaler_def amin_def amax_def chw_to_hwc_def nth_or_raise_def eps_def)
  have tf: "tensorflow_grad_cam ?km ?t 4 ''conv2d_93'' = Inr (?origs, [[[Fin 1, Fin (1 / 2)]]])"
    by (simp add: demo_tf normalize_batch_def minmax_scaler_def amin_def amax_def
        tf_normalize_def reduce_max_def fdiv_def eps_def)
  note inst1 = C2_heatmap_bounds [where model = tiny_torch and x = ?x and k = 1
      and nm = "''features''" and orig = ?orig and heat = "[[0, 0]]"
      and km = ?km and t = ?t and cls = 4 and lname = "''conv2d_93''" and origs = ?origs
      and heats = "[[[Fin 1, Fin (1 / 2)]]]"]
  note inst0 = C2_heatmap_bounds [where model = tiny_torch and x = ?x and k = 0
      and nm = "''features''" and orig = ?orig and heat = "[[200000000 / 200000001, 0]]"
      and km = ?km and t = ?t and cls = 4 and lname = "''conv2d_93''" and origs = ?origs
      and heats = "[[[Fin 1, Fin (1 / 2)]]]"]
  have uni: "\<forall>u\<in>set (concat [[0, 0::real]]). u = 0"
    by simp
  from inst1 [THEN conjunct1, THEN mp, OF torch1]
  have zero: "[[0, 0]] = map (map (\<lambda>v. 0::real)) [[0, 0::real]]"
    using layer raw1 uni by blast
  from inst0 [THEN conjunct1, THEN mp, OF torch0]
  obtain n l raw y ys where e:
    "find (\<lambda>(n, module). n = ''features'') (target_named_modules tiny_torch) = Some (n, l)"
    "pytorch_raw_heatmap tiny_torch l ?x 0 = Inr raw" "concat raw = y # ys"
    "0 < amax y ys - amin y ys + eps"
    by blast
  from e(1) layer have "l = tiny_features" by simp
  with e(2) raw0 have "raw = [[2, 0]]" by simp
  with e(3) have "y = 2" "ys = [0]" by simp_all
  with e(4) have pos: "0 < amax 2 [0] - amin 2 [0] + eps" by simp
  from inst1 [THEN conjunct2, THEN mp, OF tf]
  obtain tl conv preds grads where p:
    "grad_model ?km tl (fix_input_shape ?t) = Inr (conv, preds)"
    "tape_gradient ?km tl (fix_input_shape ?t) 4 = Inr grads"
    "[[[Fin 1, Fin (1 / 2)]]] = tf_normalize (tf_raw_heatmap grads conv)"
    by blast
  have shape: "fix_input_shape ?t = [[[[1, 2, 3], [1, 1, 1]]]]"
    by (simp add: fix_input_shape_def shape2_def)
  from p(1) shape have conv: "conv = [[[[1, 2, 3], [1, 1, 1]]]]"
    by (simp add: keras_demo_def)
  from p(2) shape have grads: "grads = [[[[1, 1, 1], [1, 1, 1]]]]"
    by (simp add: keras_demo_def)
  from p(3) conv grads have pinned:
    "tf_normalize (tf_raw_heatmap [[[[1, 1, 1], [1, 1, 1]]]] [[[[1, 2, 3], [1, 1, 1]]]])
       = [[[Fin 1, Fin (1 / 2)]]]"
    by simp
  have rawtf: "tf_raw_heatmap [[[[1, 1, 1], [1, 1, 1]]]] [[[[1, 2, 3], [1, 1, 1]]]] = [[[6, 3]]]"
    by (simp add: tf_raw_heatmap_def weighted_sum_def reduce_mean_12_def channels_def)
  from torch1 raw1 torch0 raw0 pos tf rawtf pinned show ?thesis
    by (intro conjI)
qed

lemma find_rev_last:
  "find P (rev xs) = Some l \<Longrightarrow>
     \<exists>before after. xs = before @ l # after \<and> P l \<and> (\<forall>x\<in>set after. \<not> P x)"
proof (induction xs rule: rev_induct)
  case Nil
  then show ?case by simp
next
  case (snoc x xs)
  show ?case
  proof (cases "P x")
    case True
    with snoc.prems have "l = x" by simp
    with True have "xs @ [x] = xs @ l # [] \<and> P l \<and> (\<forall>x\<in>set []. \<not> P x)" by simp
    then show ?thesis by blast
  next
    case False
    with snoc.prems have "find P (rev xs) = Some l" by simp
    then obtain before after where
      "xs = before @ l # after" "P l" "\<forall>x\<in>set after. \<not> P x"
      using snoc.IH by blast
    with False have "xs @ [x] = before @ l # (after @ [x]) \<and> P l \<and>
        (\<forall>y\<in>set (after @ [x]). \<not> P y)"
      by simp
    then show ?thesis by blast
  qed
qed

text \<open>
  C6, amended. PyTorch variant: when no module carries the name, \<open>pytorch_grad_cam\<close>
  raises \<open>ValueError\<close> with the message \<open>Layer <name> not found in model\<close> at once; it has
  no fallback. TensorFlow variant: when no layer carries the name and the model has a
  \<open>Conv2D\<close> layer, \<open>tensorflow_grad_cam\<close> runs, once, on the last \<open>Conv2D\<close> layer
  of the model.
\<close>

theorem C6_layer_resolution:
  "(find (\<lambda>(n, module). n = nm) (target_named_modules model) = None \<longrightarrow>
      pytorch_grad_cam model x k nm = Inl (ValueError (''Layer '' @ nm @ '' not found in model''))) \<and>
   (find (\<lambda>l. name l = lname) (layers km) = None \<and> find is_Conv2D (rev (layers km)) = Some l \<longrightarrow>
      tensorflow_grad_cam km t cls lname = grad_cam_on_layer km l (fix_input_shape t) cls \<and>
      (\<exists>before after. layers km = before @ l # after \<and> is_Conv2D l \<and>
         (\<forall>later\<in>set after. \<not> is_Conv2D later)))"
proof -
  have torch: "pytorch_grad_cam model x k nm = Inl (ValueError (''Layer '' @ nm @ '' not found in model''))"
    if "find (\<lambda>(n, module). n = nm) (target_named_modules model) = None"
    using that by (simp add: pytorch_grad_cam_def)
  have tf: "tensorflow_grad_cam km t cls lname = grad_cam_on_layer km l (fix_input_shape t) cls"
    if "find (\<lambda>l. name l = lname) (layers km) = None" "find is_Conv2D (rev (layers km)) = Some l"
    using that
    by (simp add: tensorflow_grad_cam_def resolve_target_layer_def get_layer_def)
  have last: "\<exists>before after. layers km = before @ l # after \<and> is_Conv2D l \<and>
         (\<forall>later\<in>set after. \<not> is_Conv2D later)"
    if "find is_Conv2D (rev (layers km)) = Some l"
    using find_rev_last [OF that] .
  from torch tf last show ?thesis by blast
qed

text \<open>
  The claim fails on the PyTorch variant: with modules present but none of the requested
  name, the call ends with the error and tries no other layer.
\<close>

theorem C6_layer_resolution_counterexample:
  "pytorch_grad_cam tiny_torch [[[[1, 0]]]] 0 ''conv2d_93''
     = Inl (ValueError ''Layer conv2d_93 not found in model'')"
  by (simp add: pytorch_grad_cam_def tiny_torch_def)


theorem C6_layer_resolution_witness:
  "pytorch_grad_cam tiny_torch [[[[1, 0]]]] 0 ''layer4''
     = Inl (ValueError ''Layer layer4 not found in model'') \<and>
   tensorflow_grad_cam (keras_demo [0, 0, 0, 0, 1, 0, 0]) (Rank3 [[[1, 2, 3], [1, 1, 1]]]) 4
       ''conv2d_93''
     = grad_cam_on_layer (keras_demo [0, 0, 0, 0, 1, 0, 0])
         \<lparr>name = ''stem_conv1'', is_Conv2D = True\<rparr> [[[[1, 2, 3], [1, 1, 1]]]] 4"
proof -
  let ?km = "keras_demo [0, 0, 0, 0, 1, 0, 0]"
  let ?conv = "\<lparr>name = ''stem_conv1'', is_Conv2D = True\<rparr>"
  have missing: "find (\<lambda>(n, module). n = ''layer4'') (target_named_modules tiny_torch) = None"
    by (simp add: tiny_torch_def)
  have unnamed: "find (\<lambda>l. name l = ''conv2d_93'') (layers ?km) = None"
    by (simp add: keras_demo_def)
  have conv: "find is_Conv2D (rev (layers ?km)) = Some ?conv"
    by (simp add: keras_demo_def)
  have shape: "fix_input_shape (Rank3 [[[1, 2, 3], [1, 1, 1]]]) = [[[[1, 2, 3], [1, 1, 1]]]]"
    by (simp add: fix_input_shape_def shape2_def)
  note inst = C6_layer_resolution [where nm = "''layer4''" and model = tiny_torch
      and lname = "''conv2d_93''" and km = ?km and l = ?conv and x = "[[[[1, 0]]]]" and k = 0
      and t = "Rank3 [[[1, 2, 3], [1, 1, 1]]]" and cls = 4]
  have a: "pytorch_grad_cam tiny_torch [[[[1, 0]]]] 0 ''layer4''
      = Inl (ValueError (''Layer '' @ ''layer4'' @ '' not found in model''))"
    by (rule inst [THEN conjunct1, THEN mp, OF missing])
  have b: "tensorflow_grad_cam ?km (Rank3 [[[1, 2, 3], [1, 1, 1]]]) 4 ''conv2d_93''
      = grad_cam_on_layer ?km ?conv (fix_input_shape (Rank3 [[[1, 2, 3], [1, 1, 1]]])) 4"
    by (rule inst [THEN conjunct2, THEN mp, OF conjI [OF unnamed conv], THEN conjunct1])
  from a b shape show ?thesis by simp
qed

lemma sum_list_map2_nth:
  "length xs = length ys \<Longrightarrow> sum_list (map2 f xs ys) = (\<Sum>i<length xs. f (xs ! i) (ys ! i))"
proof -
  assume len: "length xs = length ys"
  have "sum_list (map2 f xs ys) = (\<Sum>i<length (map2 f xs ys). map2 f xs ys ! i)"
    by (simp add: sum_list_sum_nth atLeast0LessThan)
  also have "\<dots> = (\<Sum>i<length xs. f (xs ! i) (ys ! i))"
    using len by (intro sum.cong) simp_all
  finally show ?thesis .
qed

lemma demo_torch_class0:
  "pytorch_grad_cam tiny_torch [[[[1, 0]]]] 0 ''features''
     = Inr ([[[100000000 / 100000001], [0]]], [[200000000 / 200000001, 0]])"
  by (simp add: pytorch_grad_cam_def pytorch_raw_heatmap_def tiny_torch_def tiny_features_def
      tiny_head_def one_hot_at_def spatial_mean_def nth_or_raise_def shape2_def zeros_def
      add_scaled_def relu_def normalize_grid_def normalize_image_def minmax_scaler_def
      amin_def amax_def chw_to_hwc_def eps_def)

text \<open>
  The TensorFlow variant computes the heatmap the specification words. The PyTorch
  variant computes that formula on the gradient with respect to the input, over as many
  channels of the activation as the input has.
\<close>

lemma channels_hwc_to_chw [simp]: "length (hwc_to_chw a) = channels a"
  by (simp add: hwc_to_chw_def)

lemma reduce_mean_12_nth:
  "c < channels g \<Longrightarrow> reduce_mean_12 g ! c = spec_weights (hwc_to_chw g) ! c"
proof -
  assume c: "c < channels g"
  have flat: "concat (map (map (\<lambda>px. px ! c)) g) = map (\<lambda>px. px ! c) (concat g)"
    by (simp add: map_concat)
  show ?thesis
    using c by (simp add: reduce_mean_12_def spec_weights_def hwc_to_chw_def spatial_mean_def
        flat del: map_concat)
qed

lemma tf_heatmap_refines_spec:
  assumes "i < length a" and "j < length (a ! i)"
    and "length (a ! i ! j) = channels g" and "channels a = channels g"
  shows "weighted_sum (reduce_mean_12 g) a ! i ! j
           = spec_heatmap (hwc_to_chw g) (hwc_to_chw a) i j"
proof -
  have len: "length (reduce_mean_12 g) = length (a ! i ! j)"
    using assms(3) by (simp add: reduce_mean_12_def)
  have "weighted_sum (reduce_mean_12 g) a ! i ! j
      = sum_list (map2 (*) (reduce_mean_12 g) (a ! i ! j))"
    using assms(1,2) by (simp add: weighted_sum_def)
  also have "\<dots> = (\<Sum>c<channels g. reduce_mean_12 g ! c * a ! i ! j ! c)"
    using sum_list_map2_nth [OF len, of "(*)"] by (simp add: reduce_mean_12_def)
  also have "\<dots> = (\<Sum>c<channels g. spec_weights (hwc_to_chw g) ! c * hwc_to_chw a ! c ! i ! j)"
    using assms(1,2,4) by (intro sum.cong) (simp_all add: reduce_mean_12_nth hwc_to_chw_def)
  finally show ?thesis
    using assms(4) by (simp add: spec_heatmap_def)
qed

lemma add_scaled_shape:
  "map length f = map length h \<Longrightarrow> map length (add_scaled w f h) = map length h"
proof (induction h arbitrary: f)
  case Nil
  then show ?case by (simp add: add_scaled_def)
next
  case (Cons r h)
  then obtain q f' where f: "f = q # f'" by (cases f) auto
  with Cons.prems have "map length f' = map length h" "length q = length r" by auto
  with Cons.IH [of f'] show ?case
    by (simp add: f add_scaled_def)
qed

lemma add_scaled_nth:
  assumes "map length f = map length h" and "r < length h" and "c < length (h ! r)"
  shows "add_scaled w f h ! r ! c = h ! r ! c + w * f ! r ! c"
proof -
  have lf: "length f = length h"
    using assms(1) by (rule map_eq_imp_length_eq)
  have "length (f ! r) = length (h ! r)"
    using assms(1,2) lf by (metis nth_map)
  then show ?thesis
    using assms(2,3) lf by (simp add: add_scaled_def)
qed

lemma accumulate_sum:
  assumes "\<forall>f\<in>set feats. map length f = map length h"
    and "accumulate ws feats i h = Inr out" and "r < length h" and "c < length (h ! r)"
  shows "out ! r ! c = h ! r ! c + (\<Sum>k<length ws. ws ! k * feats ! (i + k) ! r ! c)"
  using assms
proof (induction ws arbitrary: i h)
  case Nil
  then show ?case by simp
next
  case (Cons w ws)
  from Cons.prems(2) have i: "i < length feats"
    by (simp split: if_splits)
  let ?h = "add_scaled w (feats ! i) h"
  have fi: "map length (feats ! i) = map length h"
    using Cons.prems(1) i by simp
  have shape: "map length ?h = map length h"
    using fi by (rule add_scaled_shape)
  have lh: "length ?h = length h"
    using shape by (rule map_eq_imp_length_eq)
  have lr: "length (?h ! r) = length (h ! r)"
    using shape Cons.prems(3) lh by (metis nth_map)
  have step: "accumulate ws feats (Suc i) ?h = Inr out"
    using Cons.prems(2) i by simp
  have "out ! r ! c = ?h ! r ! c + (\<Sum>k<length ws. ws ! k * feats ! (Suc i + k) ! r ! c)"
    using Cons.prems(1,3,4) shape lh lr by (intro Cons.IH [OF _ step]) simp_all
  also have "?h ! r ! c = h ! r ! c + w * feats ! i ! r ! c"
    using fi Cons.prems(3,4) by (rule add_scaled_nth)
  finally have out: "out ! r ! c = h ! r ! c + w * feats ! i ! r ! c
      + (\<Sum>k<length ws. ws ! k * feats ! (Suc i + k) ! r ! c)" .
  have "(\<Sum>k<length (w # ws). (w # ws) ! k * feats ! (i + k) ! r ! c)
      = w * feats ! i ! r ! c + (\<Sum>k<length ws. ws ! k * feats ! (Suc i + k) ! r ! c)"
    by (simp only: length_Cons sum.lessThan_Suc_shift) simp
  with out show ?case by simp
qed


lemma accumulate_shape:
  assumes "\<forall>f\<in>set feats. map length f = map length h"
    and "accumulate ws feats i h = Inr out"
  shows "map length out = map length h"
  using assms
proof (induction ws arbitrary: i h)
  case Nil
  then show ?case by simp
next
  case (Cons w ws)
  from Cons.prems(2) have i: "i < length feats"
    by (simp split: if_splits)
  let ?h = "add_scaled w (feats ! i) h"
  have shape: "map length ?h = map length h"
    using Cons.prems(1) i by (intro add_scaled_shape) simp
  have step: "accumulate ws feats (Suc i) ?h = Inr out"
    using Cons.prems(2) i by simp
  have "map length out = map length ?h"
    using Cons.prems(1) shape by (intro Cons.IH [OF _ step]) simp
  with shape show ?case by simp
qed

lemma zeros_shape:
  "\<forall>row\<in>set f. length row = snd (shape2 f) \<Longrightarrow> map length (zeros (shape2 f)) = map length f"
  by (simp add: zeros_def shape2_def map_replicate_const cong: map_cong)

lemma accumulate_in_range:
  "accumulate ws feats i h = Inr out \<Longrightarrow> i \<le> length feats
     \<Longrightarrow> i + length ws \<le> length feats"
proof (induction ws arbitrary: i h)
  case Nil
  then show ?case by simp
next
  case (Cons w ws)
  from Cons.prems(1) have i: "i < length feats"
    by (simp split: if_splits)
  with Cons.prems(1) have "accumulate ws feats (Suc i) (add_scaled w (feats ! i) h) = Inr out"
    by simp
  from Cons.IH [OF this] i show ?case by simp
qed

lemma pytorch_raw_heatmap_uses_input_gradient:
  assumes "forward model x = Inr output" and "one_hot_at output k = Inr one_hot"
    and "backward_input model x one_hot = Inr (g # gs)"
    and "layer x = Inr ((f # fs) # rest)"
    and "\<forall>row\<in>set f. length row = snd (shape2 f)"
    and "\<forall>q\<in>set fs. map length q = map length f"
    and "pytorch_raw_heatmap model layer x k = Inr raw"
    and "r < length f" and "c < length (f ! r)"
  shows "raw ! r ! c = relu (spec_heatmap g (take (length g) (f # fs)) r c)"
proof -
  let ?z = "zeros (shape2 f)"
  obtain h where acc: "accumulate (map spatial_mean g) (f # fs) 0 ?z = Inr h"
    and raw: "raw = map (map relu) h"
    using assms(1,2,3,4,7)
    by (auto simp: pytorch_raw_heatmap_def nth_or_raise_def and_then_Inr_iff)
  have z: "map length ?z = map length f"
    using assms(5) by (rule zeros_shape)
  have feats: "\<forall>q\<in>set (f # fs). map length q = map length ?z"
    using assms(6) z by simp
  have shape: "map length h = map length f"
    using accumulate_shape [OF feats acc] z by simp
  have lh: "length h = length f"
    using shape by (rule map_eq_imp_length_eq)
  have lr: "length (h ! r) = length (f ! r)"
    using shape assms(8) lh by (metis nth_map)
  have lz: "length ?z = length f"
    using z by (rule map_eq_imp_length_eq)
  have lzr: "length (?z ! r) = length (f ! r)"
    using z assms(8) lz by (metis nth_map)
  have zero: "?z ! r ! c = 0"
    using assms(8,9) lzr by (simp add: zeros_def shape2_def split: list.splits)
  have enough: "length g \<le> length (f # fs)"
    using accumulate_in_range [OF acc] by simp
  have "h ! r ! c = ?z ! r ! c
      + (\<Sum>ch<length (map spatial_mean g). map spatial_mean g ! ch * (f # fs) ! (0 + ch) ! r ! c)"
    using assms(8,9) lz lzr by (intro accumulate_sum [OF feats acc]) simp_all
  also have "\<dots> = (\<Sum>ch<length g. spatial_mean (g ! ch) * (f # fs) ! ch ! r ! c)"
    using zero by simp
  also have "\<dots> = spec_heatmap g (take (length g) (f # fs)) r c"
    using enough by (simp add: spec_heatmap_def spec_weights_def min_def)
  finally show ?thesis
    using assms(8,9) lh lr by (simp add: raw)
qed

text \<open>
  C3. On the linear model \<open>tiny_torch\<close> with input \<open>[1, 0]\<close> and class 0, the PyTorch
  variant takes its one weight, 2, from the gradient with respect to the input and sums
  over the one input channel: the heatmap before normalisation is \<open>[2, 0]\<close>. The claim's
  weights, from the gradient with respect to the two-channel activation, are
  \<open>[1/2, 3/2]\<close>, and its heatmap is \<open>[1/2, 3/2]\<close>: the hot pixel is the other one.
\<close>

theorem C3_pytorch_weights:
  "tiny_features [[[[1, 0]]]] = Inr [[[[1, 0]], [[0, 1]]]] \<and>
   backward_input tiny_torch [[[[1, 0]]]] [[1, 0]] = Inr [[[[2, 2]]]] \<and>
   pytorch_raw_heatmap tiny_torch tiny_features [[[[1, 0]]]] 0 = Inr [[2, 0]] \<and>
   pytorch_grad_cam tiny_torch [[[[1, 0]]]] 0 ''features''
     = Inr ([[[100000000 / 100000001], [0]]], [[200000000 / 200000001, 0]]) \<and>
   spec_weights tiny_activation_gradient = [1 / 2, 3 / 2] \<and>
   relu (spec_heatmap tiny_activation_gradient [[[1, 0]], [[0, 1]]] 0 0) = 1 / 2 \<and>
   relu (spec_heatmap tiny_activation_gradient [[[1, 0]], [[0, 1]]] 0 1) = 3 / 2 \<and>
   normalize_grid [[1 / 2, 3 / 2]] = Inr [[0, 100000000 / 100000001]]"
proof -
  have f: "tiny_features [[[[1, 0]]]] = Inr [[[[1, 0]], [[0, 1]]]]"
    by (simp add: tiny_features_def)
  have g: "backward_input tiny_torch [[[[1, 0]]]] [[1, 0]] = Inr [[[[2, 2]]]]"
    by (simp add: tiny_torch_def)
  have r: "pytorch_raw_heatmap tiny_torch tiny_features [[[[1, 0]]]] 0 = Inr [[2, 0]]"
    by (simp add: pytorch_raw_heatmap_def tiny_torch_def tiny_features_def
      tiny_head_def one_hot_at_def spatial_mean_def nth_or_raise_def shape2_def zeros_def
      add_scaled_def relu_def)
  have w: "spec_weights tiny_activation_gradient = [1 / 2, 3 / 2]"
    by (simp add: spec_weights_def tiny_activation_gradient_def spatial_mean_def)
  have s0: "relu (spec_heatmap tiny_activation_gradient [[[1, 0]], [[0, 1]]] 0 0) = 1 / 2"
    by (simp add: spec_heatmap_def w relu_def lessThan_Suc numeral_2_eq_2)
  have s1: "relu (spec_heatmap tiny_activation_gradient [[[1, 0]], [[0, 1]]] 0 1) = 3 / 2"
    by (simp add: spec_heatmap_def w relu_def lessThan_Suc numeral_2_eq_2)
  have n: "normalize_grid [[1 / 2, 3 / 2]] = Inr [[0, 100000000 / 100000001]]"
    by (simp add: normalize_grid_def minmax_scaler_def amin_def amax_def eps_def)
  from f g r demo_torch_class0 w s0 s1 n show ?thesis by blast
qed

lemma tiny_head_gradient:
  "tiny_head [[[a0 + d0, a1 + d1]], [[b0 + e0, b1 + e1]]] ! 0 =
     tiny_head [[[a0, a1]], [[b0, b1]]] ! 0 + (1 / 2 * d0 + 1 / 2 * d1 + 3 / 2 * e0 + 3 / 2 * e1)"
  by (simp add: tiny_head_def spatial_mean_def field_simps)

lemma tiny_input_gradient:
  "forward tiny_torch [[[[a0 + d0, a1 + d1]]]] = Inr [[y, z]] \<Longrightarrow>
   forward tiny_torch [[[[a0, a1]]]] = Inr [[y0, z0]] \<Longrightarrow> y = y0 + (2 * d0 + 2 * d1)"
  by (simp add: tiny_torch_def tiny_head_def spatial_mean_def field_simps)

lemma tiny_forward_factors:
  "tiny_features x = Inr a \<Longrightarrow> forward tiny_torch x = Inr (map tiny_head a)"
  by (auto simp: tiny_features_def tiny_torch_def)

section \<open>Visualization compositor\<close>

lemma clip01_bounds: "0 \<le> clip01 v \<and> clip01 v \<le> 1"
  by (simp add: clip01_def)

lemma clip01_id: "0 \<le> v \<Longrightarrow> v \<le> 1 \<Longrightarrow> clip01 v = v"
  by (simp add: clip01_def)

lemma in_set_map2E:
  assumes "z \<in> set (map2 f xs ys)"
  obtains x y where "x \<in> set xs" "y \<in> set ys" "z = f x y"
  using assms by (auto dest: set_zip_leftD set_zip_rightD)

lemma apply_grad_cam_bounds:
  assumes "apply_grad_cam cv2_resize img hm alpha = Inr vis"
    and "row \<in> set vis" and "px \<in> set row" and "v \<in> set px"
  shows "0 \<le> v \<and> v \<le> 1"
proof -
  obtain colored where
    vis: "vis = map2 (map2 (map2 (\<lambda>v c. clip01 (v + alpha * c)))) img colored"
    using assms(1) by (auto simp: apply_grad_cam_def and_then_Inr_iff)
  from assms(2) vis obtain r1 r2 where
    row: "row = map2 (map2 (\<lambda>v c. clip01 (v + alpha * c))) r1 r2"
    by (auto elim: in_set_map2E)
  from assms(3) row obtain p1 p2 where
    px: "px = map2 (\<lambda>v c. clip01 (v + alpha * c)) p1 p2"
    by (auto elim: in_set_map2E)
  from assms(4) px obtain a c where "v = clip01 (a + alpha * c)"
    by (auto elim: in_set_map2E)
  then show ?thesis
    using clip01_bounds by simp
qed

lemma map2_same: "map2 f xs (map h xs) = map (\<lambda>x. f x (h x)) xs"
  by (induction xs) simp_all

lemma map2_replicate: "map2 f xs (replicate (length xs) c) = map (\<lambda>x. f x c) xs"
  by (induction xs) simp_all

lemma zero_heat_cast:
  assumes "\<forall>row\<in>set hm. \<forall>s\<in>set row. s = Fin 0"
  shows "map (map (\<lambda>s. np_uint8 (times255 s))) hm = map (\<lambda>n. replicate n 0) (map length hm)"
  using assms
proof (induction hm)
  case Nil
  then show ?case by simp
next
  case (Cons row hm)
  have "map (\<lambda>s. np_uint8 (times255 s)) row = replicate (length row) 0"
    using Cons.prems by (induction row) (simp_all add: np_uint8_def times255_def)
  with Cons show ?case by simp
qed

lemma zero_overlay:
  assumes "\<forall>row\<in>set img. \<forall>px\<in>set row. px \<noteq> []"
  shows "red_overlay img (map (\<lambda>n. replicate n 0) (map length img))
           = Inr (map (map (\<lambda>px. replicate (length px) 0)) img)"
proof -
  have nonempty: "[] \<notin> set (concat img)"
    using assms by auto
  have cell: "map2 (\<lambda>px h. h # replicate (length px - 1) 0) row (replicate (length row) (0::real))
      = map (\<lambda>px. replicate (length px) 0) row" if "row \<in> set img" for row
  proof -
    have "0 # replicate (length px - 1) (0::real) = replicate (length px) 0"
      if "px \<in> set row" for px
      using assms \<open>row \<in> set img\<close> that by (cases px) auto
    then show ?thesis
      by (auto simp: map2_replicate)
  qed
  have "map2 (map2 (\<lambda>px h. h # replicate (length px - 1) 0)) img
          (map (\<lambda>row. replicate (length row) (0::real)) img)
        = map (map (\<lambda>px. replicate (length px) 0)) img"
    using cell by (auto simp: map2_same)
  then show ?thesis
    using nonempty by (simp add: red_overlay_def comp_def)
qed

lemma blend_zero:
  assumes "\<forall>row\<in>set img. \<forall>px\<in>set row. \<forall>v\<in>set px. 0 \<le> v \<and> v \<le> 1"
  shows "map2 (map2 (map2 (\<lambda>v c. clip01 (v + alpha * c)))) img
           (map (map (\<lambda>px. replicate (length px) 0)) img) = img"
proof -
  have px: "map2 (\<lambda>v c. clip01 (v + alpha * c)) p (replicate (length p) 0) = p"
    if "row \<in> set img" "p \<in> set row" for row p
    using assms that by (simp add: map2_replicate clip01_id map_idI)
  have row: "map2 (map2 (\<lambda>v c. clip01 (v + alpha * c))) r
               (map (\<lambda>px. replicate (length px) 0) r) = r"
    if "r \<in> set img" for r
    using px [OF that] by (simp add: map2_same map_idI)
  show ?thesis
    using row by (simp add: map2_same map_idI)
qed

text \<open>
  C9, amended. For an image whose samples all lie in [0,1] (every pixel with at least one
  channel), compositing with an all-zero heatmap returns the image, whether the heatmap
  has the image's shape or is first resized by \<open>cv2.resize\<close> to an all-zero heatmap of that
  shape; and every sample of any composited output lies in [0,1].
\<close>

theorem C9_composite:
  "((\<forall>row\<in>set img. \<forall>px\<in>set row. px \<noteq> [] \<and> (\<forall>v\<in>set px. 0 \<le> v \<and> v \<le> 1)) \<and>
    (\<forall>row\<in>set hm. \<forall>s\<in>set row. s = Fin 0) \<and> map length hm = map length img
      \<longrightarrow> apply_grad_cam cv2_resize img hm alpha = Inr img) \<and>
   ((\<forall>row\<in>set img. \<forall>px\<in>set row. px \<noteq> [] \<and> (\<forall>v\<in>set px. 0 \<le> v \<and> v \<le> 1)) \<and>
    shape2 img \<noteq> shape2 hm \<and>
    cv2_resize hm (snd (shape2 img), fst (shape2 img)) = Inr hm' \<and>
    (\<forall>row\<in>set hm'. \<forall>s\<in>set row. s = Fin 0) \<and> map length hm' = map length img
      \<longrightarrow> apply_grad_cam cv2_resize img hm alpha = Inr img) \<and>
   (apply_grad_cam cv2_resize img hm alpha = Inr vis
      \<longrightarrow> (\<forall>row\<in>set vis. \<forall>px\<in>set row. \<forall>v\<in>set px. 0 \<le> v \<and> v \<le> 1))"
proof -
  have core: "and_then (red_overlay img (map (map (\<lambda>s. np_uint8 (times255 s))) h))
        (\<lambda>heatmap_colored.
          Inr (map2 (map2 (map2 (\<lambda>v c. clip01 (v + alpha * c)))) img heatmap_colored))
      = Inr img"
    if img: "\<forall>row\<in>set img. \<forall>px\<in>set row. px \<noteq> [] \<and> (\<forall>v\<in>set px. 0 \<le> v \<and> v \<le> 1)"
      and zero: "\<forall>row\<in>set h. \<forall>s\<in>set row. s = Fin 0" and len: "map length h = map length img"
    for h
  proof -
    have "red_overlay img (map (map (\<lambda>s. np_uint8 (times255 s))) h)
        = Inr (map (map (\<lambda>px. replicate (length px) 0)) img)"
      using zero_heat_cast [OF zero] zero_overlay [of img] img len by simp
    moreover have "map2 (map2 (map2 (\<lambda>v c. clip01 (v + alpha * c)))) img
           (map (map (\<lambda>px. replicate (length px) 0)) img) = img"
      using img by (intro blend_zero) blast
    ultimately show ?thesis by simp
  qed
  have same: "apply_grad_cam cv2_resize img hm alpha = Inr img"
    if img: "\<forall>row\<in>set img. \<forall>px\<in>set row. px \<noteq> [] \<and> (\<forall>v\<in>set px. 0 \<le> v \<and> v \<le> 1)"
      and zero: "\<forall>row\<in>set hm. \<forall>s\<in>set row. s = Fin 0" and len: "map length hm = map length img"
  proof -
    have "shape2 img = shape2 hm"
      using len by (cases img; cases hm) (auto simp: shape2_def dest: map_eq_imp_length_eq)
    then show ?thesis
      using core [OF img zero len] by (simp add: apply_grad_cam_def)
  qed
  have resized: "apply_grad_cam cv2_resize img hm alpha = Inr img"
    if img: "\<forall>row\<in>set img. \<forall>px\<in>set row. px \<noteq> [] \<and> (\<forall>v\<in>set px. 0 \<le> v \<and> v \<le> 1)"
      and differ: "shape2 img \<noteq> shape2 hm"
      and rs: "cv2_resize hm (snd (shape2 img), fst (shape2 img)) = Inr hm'"
      and zero: "\<forall>row\<in>set hm'. \<forall>s\<in>set row. s = Fin 0" and len: "map length hm' = map length img"
    using core [OF img zero len] differ rs by (simp add: apply_grad_cam_def)
  have bound: "\<forall>row\<in>set vis. \<forall>px\<in>set row. \<forall>v\<in>set px. 0 \<le> v \<and> v \<le> 1"
    if "apply_grad_cam cv2_resize img hm alpha = Inr vis"
    using apply_grad_cam_bounds [OF that] by blast
  from same resized bound show ?thesis by blast
qed

text \<open>
  The claim fails for an image with a sample outside [0,1]: the heatmap is all zero and
  has the image's shape, and the clip still changes the sample 2 into 1.
\<close>

theorem C9_composite_counterexample:
  "apply_grad_cam (\<lambda>h s. Inr h) [[[2, 0, 0]]] [[Fin 0]] (2 / 5) = Inr [[[1, 0, 0]]] \<and>
   apply_grad_cam (\<lambda>h s. Inr h) [[[2, 0, 0]]] [[Fin 0]] (2 / 5) \<noteq> Inr [[[2, 0, 0]]]"
  by (simp add: apply_grad_cam_def shape2_def red_overlay_def np_uint8_def times255_def
      clip01_def)


theorem C9_composite_witness:
  "apply_grad_cam (\<lambda>h s. Inr [[Fin 0, Fin 0]]) [[[1 / 2, 1 / 4, 0], [1, 0, 1]]] [[Fin 0, Fin 0]]
      (2 / 5) = Inr [[[1 / 2, 1 / 4, 0], [1, 0, 1]]] \<and>
   apply_grad_cam (\<lambda>h s. Inr [[Fin 0, Fin 0]]) [[[1 / 2, 1 / 4, 0], [1, 0, 1]]] [[Fin 0]]
      (2 / 5) = Inr [[[1 / 2, 1 / 4, 0], [1, 0, 1]]]"
proof -
  let ?img = "[[[1 / 2, 1 / 4, 0], [1, 0, 1]]] :: image"
  let ?rs = "(\<lambda>h s. Inr [[Fin 0, Fin 0]]) :: sample list list \<Rightarrow> nat \<times> nat \<Rightarrow> exn + sample list list"
  have img: "\<forall>row\<in>set ?img. \<forall>px\<in>set row. px \<noteq> [] \<and> (\<forall>v\<in>set px. 0 \<le> v \<and> v \<le> 1)"
    by simp
  have zero: "\<forall>row\<in>set [[Fin 0, Fin 0]]. \<forall>s\<in>set row. s = Fin 0"
    by simp
  have len: "map length [[Fin 0, Fin 0]] = map length ?img"
    by simp
  have differ: "shape2 ?img \<noteq> shape2 [[Fin 0]]"
    by (simp add: shape2_def)
  have rs: "?rs [[Fin 0]] (snd (shape2 ?img), fst (shape2 ?img)) = Inr [[Fin 0, Fin 0]]"
    by simp
  note inst = C9_composite [of ?img _ ?rs "2 / 5" "[[Fin 0, Fin 0]]" ?img]
  have a: "apply_grad_cam ?rs ?img [[Fin 0, Fin 0]] (2 / 5) = Inr ?img"
    by (rule inst [THEN conjunct1, THEN mp]) (intro conjI img zero len)
  have b: "apply_grad_cam ?rs ?img [[Fin 0]] (2 / 5) = Inr ?img"
    by (rule inst [THEN conjunct2, THEN conjunct1, THEN mp]) (intro conjI img differ rs zero len)
  from a b show ?thesis by (rule conjI)
qed

end
